theory Spec2Isabelle
  imports Complex_Main "HOL-Library.Word"
begin

section \<open>MoodBeats inference server: values, errors and Python primitives\<close>

text \<open>
  The development embeds \<^verbatim>\<open>src/assets/ml/server/flask_server.py\<close>.
  Python floats are modelled by the real numbers, so every fact of float arithmetic
  below is a fact of exact arithmetic; rounding is outside the model. A float that the
  numeric libraries can return without being a number (IEEE NaN or an infinity) is the
  value \<open>NonFinite\<close>. The entries of an integer array are 64-bit machine integers,
  whose arithmetic wraps around. Every exception of the source is a value of
  \<open>py_error\<close>, and a computation that can raise returns \<open>py_error + 'a\<close> with \<open>Inl\<close> for
  the exception.
\<close>

datatype py_error = ValueError | IndexError | KeyError | AttributeError | LoadError

datatype fval = Num real | NonFinite

text \<open>
  A number of a sensor array, as numpy stores it: a JSON integer becomes an \<^verbatim>\<open>int64\<close>
  (integers beyond that range are outside the model), a JSON float a \<^verbatim>\<open>float64\<close>.
\<close>

datatype cell = Int64 "64 word" | Float64 real

fun is_int :: "cell \<Rightarrow> bool" where
  "is_int (Int64 _) = True"
| "is_int (Float64 _) = False"

fun value_of :: "cell \<Rightarrow> real" where
  "value_of (Int64 w) = real_of_int (sint w)"
| "value_of (Float64 x) = x"

text \<open>
  \<^verbatim>\<open>np.array\<close> gives all entries one type: integers stay integers only when every
  entry is one, otherwise every entry becomes a float.
\<close>

definition cast :: "bool \<Rightarrow> cell \<Rightarrow> cell" where
  "cast all_int c = (if all_int then c else Float64 (value_of c))"

definition np_array1 :: "cell list \<Rightarrow> cell list" where
  "np_array1 xs = map (cast (list_all is_int xs)) xs"

text \<open>Sequencing of computations that may raise: the first exception wins.\<close>

fun and_then :: "py_error + 'a \<Rightarrow> ('a \<Rightarrow> py_error + 'b) \<Rightarrow> py_error + 'b" where
  "and_then (Inl e) f = Inl e"
| "and_then (Inr x) f = f x"

text \<open>
  Python indexing \<^verbatim>\<open>xs[i]\<close> of a list or one-dimensional array: a negative
  index counts from the end, anything out of range raises \<^verbatim>\<open>IndexError\<close>.
\<close>

definition py_index :: "'a list \<Rightarrow> int \<Rightarrow> py_error + 'a" where
  "py_index xs i =
     (if 0 \<le> i \<and> i < int (length xs) then Inr (xs ! nat i)
      else if i < 0 \<and> 0 \<le> i + int (length xs) then Inr (xs ! nat (i + int (length xs)))
      else Inl IndexError)"

text \<open>Line 40: the ordered list of mood names.\<close>

definition MOOD_NAMES :: "string list" where
  "MOOD_NAMES = [''Happy'', ''Angry'', ''Sad'', ''Relaxed'']"

section \<open>Feature extraction (lines 43 to 89)\<close>

subsection \<open>The numpy and scipy statistics\<close>

text \<open>
  The statistics are library functions; each definition follows the library's documented
  formula. All of them but the energy compute in floating point whatever the type of
  the array, so they are defined on the values of its entries. \<^verbatim>\<open>np.min\<close> and
  \<^verbatim>\<open>np.max\<close> raise \<^verbatim>\<open>ValueError\<close> on an empty array.
\<close>

definition np_mean :: "real list \<Rightarrow> real" where
  "np_mean xs = sum_list xs / real (length xs)"

text \<open>The central moment of order \<open>k\<close>, the mean of the \<open>k\<close>-th powers of the deviations.\<close>

definition moment :: "nat \<Rightarrow> real list \<Rightarrow> real" where
  "moment k xs = np_mean (map (\<lambda>x. (x - np_mean xs) ^ k) xs)"

definition np_std :: "real list \<Rightarrow> real" where
  "np_std xs = sqrt (moment 2 xs)"

fun np_min :: "real list \<Rightarrow> py_error + real" where
  "np_min [] = Inl ValueError"
| "np_min (x # xs) = Inr (fold min xs x)"

fun np_max :: "real list \<Rightarrow> py_error + real" where
  "np_max [] = Inl ValueError"
| "np_max (x # xs) = Inr (fold max xs x)"

text \<open>
  Lines 52 and 77: \<^verbatim>\<open>np.sum(x**2) / len(x)\<close>. The square and the sum keep the type of
  the array: on an integer array both are 64-bit operations that wrap around, and only
  the final division is a float division.
\<close>

fun square :: "cell \<Rightarrow> cell" where
  "square (Int64 w) = Int64 (w * w)"
| "square (Float64 x) = Float64 (x * x)"

fun add :: "cell \<Rightarrow> cell \<Rightarrow> cell" where
  "add (Int64 a) (Int64 b) = Int64 (a + b)"
| "add a b = Float64 (value_of a + value_of b)"

definition np_sum :: "cell list \<Rightarrow> cell" where
  "np_sum xs = fold (\<lambda>x total. add total x) xs (Int64 0)"

definition energy :: "cell list \<Rightarrow> real" where
  "energy xs = value_of (np_sum (map square xs)) / real (length xs)"

text \<open>
  \<^verbatim>\<open>scipy.stats.skew\<close> and \<^verbatim>\<open>scipy.stats.kurtosis\<close> (biased, Fisher): quotients of
  central moments, not a number when the variance vanishes.
\<close>

definition skew :: "real list \<Rightarrow> fval" where
  "skew xs =
     (let m2 = moment 2 xs; m3 = moment 3 xs
      in if m2 = 0 then NonFinite else Num (m3 / (m2 * sqrt m2)))"

definition kurtosis :: "real list \<Rightarrow> fval" where
  "kurtosis xs =
     (let m2 = moment 2 xs; m4 = moment 4 xs
      in if m2 = 0 then NonFinite else Num (m4 / m2 ^ 2 - 3))"

text \<open>
  \<^verbatim>\<open>np.histogram(x, bins=10, density=True)[0]\<close> on a non-empty array: ten bins of equal
  width between the minimum and the maximum (widened by one half on each side when the
  two coincide), the last bin closed on the right; each count is divided by the bin
  width and by the number of samples.
\<close>

definition histogram_range :: "real \<Rightarrow> real \<Rightarrow> real \<times> real" where
  "histogram_range first_edge last_edge =
     (if first_edge = last_edge then (first_edge - 0.5, last_edge + 0.5)
      else (first_edge, last_edge))"

definition bin_index :: "real \<Rightarrow> real \<Rightarrow> real \<Rightarrow> nat" where
  "bin_index lo hi x = min 9 (nat \<lfloor>(x - lo) / (hi - lo) * 10\<rfloor>)"

definition histogram_density :: "real \<Rightarrow> real \<Rightarrow> real list \<Rightarrow> real list" where
  "histogram_density mn mx xs =
     (let (lo, hi) = histogram_range mn mx;
          width = (hi - lo) / 10
      in map (\<lambda>k. real (length (filter (\<lambda>x. bin_index lo hi x = k) xs))
                    / width / real (length xs)) [0..<10])"

text \<open>
  \<^verbatim>\<open>scipy.stats.entropy(pk)\<close>: \<open>pk\<close> is normalised to sum one and the entropy is the
  sum of \<open>- p * ln p\<close>, an entry \<open>0\<close> contributing \<open>0\<close>. A vanishing sum or a negative
  entry gives NaN or an infinity.
\<close>

definition entr :: "real \<Rightarrow> real" where
  "entr p = (if p = 0 then 0 else - p * ln p)"

definition entropy :: "real list \<Rightarrow> fval" where
  "entropy pk =
     (let s = sum_list pk
      in if s = 0 \<or> list_ex (\<lambda>x. x / s < 0) pk then NonFinite
         else Num (sum_list (map (\<lambda>x. entr (x / s)) pk)))"

subsection \<open>The eight statistics of one series\<close>

text \<open>
  Lines 47 to 56 (heart rate) and lines 72 to 81 (one accelerometer axis) are the same
  list display; its entries are evaluated in order, so an empty series raises at
  \<^verbatim>\<open>np.min\<close>. The integer \<open>0\<close> of the short-series branches becomes the float \<open>0.0\<close>
  in the returned array.
\<close>

definition features8 :: "cell list \<Rightarrow> py_error + fval list" where
  "features8 xs =
     (let v = map value_of xs in
      and_then (np_min v) (\<lambda>mn.
      and_then (np_max v) (\<lambda>mx.
        Inr [Num (np_mean v),
             Num (np_std v),
             Num mn,
             Num mx,
             Num (energy xs),
             (if length xs > 2 then skew v else Num 0),
             (if length xs > 3 then kurtosis v else Num 0),
             entropy (map (\<lambda>d. d + 0.000001) (histogram_density mn mx v))])))"

subsection \<open>Accelerometer input\<close>

text \<open>
  The accelerometer field is a JSON array whose elements are numbers or arrays of
  numbers.
\<close>

datatype acc_elem = Scalar cell | Row "cell list"

fun is_scalar :: "acc_elem \<Rightarrow> bool" where
  "is_scalar (Scalar _) = True"
| "is_scalar (Row _) = False"

fun the_scalar :: "acc_elem \<Rightarrow> cell" where
  "the_scalar (Scalar x) = x"
| "the_scalar (Row _) = Int64 0"

fun the_row :: "acc_elem \<Rightarrow> cell list" where
  "the_row (Row r) = r"
| "the_row (Scalar x) = [x]"

text \<open>Line 62: \<^verbatim>\<open>isinstance(acc_data[0], list) and len(acc_data[0]) == 3\<close>.\<close>

fun first_is_triple :: "acc_elem list \<Rightarrow> bool" where
  "first_is_triple (Row r # _) = (length r = 3)"
| "first_is_triple _ = False"

text \<open>
  \<^verbatim>\<open>np.array\<close> of such a list: a one-dimensional array when every element is a number,
  a matrix when every element is a row of one common length, and \<^verbatim>\<open>ValueError\<close>
  (inhomogeneous shape) otherwise. In a matrix, too, the entries stay integers only
  when all of them are.
\<close>

datatype ndarray = Arr1 "cell list" | Arr2 "cell list list"

definition np_array :: "acc_elem list \<Rightarrow> py_error + ndarray" where
  "np_array a =
     (if list_all is_scalar a then Inr (Arr1 (np_array1 (map the_scalar a)))
      else if list_all (\<lambda>e. \<not> is_scalar e \<and> length (the_row e) = length (the_row (hd a))) a
        then Inr (Arr2 (map (map (cast (list_all is_int (concat (map the_row a)))))
                         (map the_row a)))
      else Inl ValueError)"

fun chunk3 :: "cell list \<Rightarrow> cell list list" where
  "chunk3 (x # y # z # rest) = [x, y, z] # chunk3 rest"
| "chunk3 _ = []"

fun flat :: "ndarray \<Rightarrow> cell list" where
  "flat (Arr1 v) = v"
| "flat (Arr2 rows) = concat rows"

text \<open>
  \<^verbatim>\<open>reshape(-1, 3)\<close>: row-major regrouping in threes; a size that is not a multiple of
  three raises \<^verbatim>\<open>ValueError\<close>.
\<close>

definition reshape3 :: "ndarray \<Rightarrow> py_error + cell list list" where
  "reshape3 a =
     (if length (flat a) mod 3 \<noteq> 0 then Inl ValueError else Inr (chunk3 (flat a)))"

text \<open>
  Lines 62 to 67: the accelerometer data as a matrix. In the first branch the array is
  used as it is; slicing a column out of a one-dimensional array would raise
  \<^verbatim>\<open>IndexError\<close>.
\<close>

fun as_matrix :: "ndarray \<Rightarrow> py_error + cell list list" where
  "as_matrix (Arr2 rows) = Inr rows"
| "as_matrix (Arr1 v) = Inl IndexError"

definition acc_matrix :: "acc_elem list \<Rightarrow> py_error + cell list list" where
  "acc_matrix acc_data =
     (if first_is_triple acc_data
        then and_then (np_array acc_data) as_matrix
      else and_then (np_array acc_data) reshape3)"

text \<open>
  Line 71: \<^verbatim>\<open>acc_data[:, axis]\<close>. Every row of the matrix has three entries, so the
  three axes are in range.
\<close>

definition column :: "nat \<Rightarrow> cell list list \<Rightarrow> cell list" where
  "column axis m = map (\<lambda>r. r ! axis) m"

text \<open>Lines 70 to 82: the loop over the three axes, extending \<^verbatim>\<open>acc_features\<close>.\<close>

fun axis_loop :: "cell list list \<Rightarrow> nat list \<Rightarrow> fval list \<Rightarrow> py_error + fval list" where
  "axis_loop m [] acc_features = Inr acc_features"
| "axis_loop m (axis # rest) acc_features =
     and_then (features8 (column axis m)) (\<lambda>axis_features.
       axis_loop m rest (acc_features @ axis_features))"

text \<open>
  \<^verbatim>\<open>extract_features\<close>, given the heart-rate array; the result is the single row of
  the returned one-row matrix.
\<close>

definition extract_features :: "cell list \<Rightarrow> acc_elem list option \<Rightarrow> py_error + fval list" where
  "extract_features hr_data acc_data =
     and_then (features8 hr_data) (\<lambda>hr_features.
     and_then
       (case acc_data of
          None \<Rightarrow> Inr (replicate (8 * 3) (Num 0))
        | Some a \<Rightarrow>
            if length a > 0 then and_then (acc_matrix a) (\<lambda>m. axis_loop m [0..<3] [])
            else Inr (replicate (8 * 3) (Num 0)))
       (\<lambda>acc_features. Inr (hr_features @ acc_features)))"

section \<open>Ensemble step of \<^verbatim>\<open>predict_mood\<close> (lines 126 to 148)\<close>

text \<open>
  Line 127, \<^verbatim>\<open>0.6 * proba1 + 0.4 * proba2\<close> on one-dimensional arrays: numpy adds
  elementwise when the lengths agree, stretches an array of length one over the other,
  and raises \<^verbatim>\<open>ValueError\<close> for any other pair of lengths.
\<close>

definition combined_proba :: "real list \<Rightarrow> real list \<Rightarrow> py_error + real list" where
  "combined_proba proba1 proba2 =
     (if length proba1 = length proba2
        then Inr (map2 (\<lambda>a b. 0.6 * a + 0.4 * b) proba1 proba2)
      else if length proba1 = 1
        then Inr (map (\<lambda>b. 0.6 * hd proba1 + 0.4 * b) proba2)
      else if length proba2 = 1
        then Inr (map (\<lambda>a. 0.6 * a + 0.4 * hd proba2) proba1)
      else Inl ValueError)"

text \<open>
  \<^verbatim>\<open>np.argmax\<close>: one pass that keeps the position of the running maximum and moves it
  only on a strictly larger entry; an empty array raises \<^verbatim>\<open>ValueError\<close>.
\<close>

fun argmax_loop :: "real list \<Rightarrow> nat \<Rightarrow> nat \<Rightarrow> real \<Rightarrow> nat" where
  "argmax_loop [] i best mx = best"
| "argmax_loop (y # ys) i best mx =
     (if mx < y then argmax_loop ys (Suc i) i y else argmax_loop ys (Suc i) best mx)"

fun np_argmax :: "real list \<Rightarrow> py_error + nat" where
  "np_argmax [] = Inl ValueError"
| "np_argmax (x # xs) = Inr (argmax_loop xs 1 0 x)"

text \<open>
  \<^verbatim>\<open>np.argsort\<close> with the default kind returns the positions of the array in ascending
  order of their entries, and promises no order among equal entries. The sort is
  therefore a parameter \<open>argsort\<close> of the ensemble step, and what numpy promises of its
  result is the predicate \<open>ascending_positions\<close>: every position once, the entries read
  in that order ascending.
\<close>

definition ascending_positions :: "nat list \<Rightarrow> real list \<Rightarrow> bool" where
  "ascending_positions p xs =
     (distinct p \<and> set p = {0..<length xs} \<and> sorted (map (\<lambda>i. xs ! i) p))"

text \<open>
  Lines 138 to 140: the dictionary comprehension over \<^verbatim>\<open>range(len(MOOD_NAMES))\<close>,
  as an association list in insertion order (the keys are distinct). Reading an entry
  the combined array does not have raises \<^verbatim>\<open>IndexError\<close>.
\<close>

fun confidence_loop :: "real list \<Rightarrow> nat list \<Rightarrow> py_error + (string \<times> real) list" where
  "confidence_loop c [] = Inr []"
| "confidence_loop c (i # is) =
     and_then (py_index MOOD_NAMES (int i)) (\<lambda>name.
     and_then (py_index c (int i)) (\<lambda>v.
     and_then (confidence_loop c is) (\<lambda>rest. Inr ((name, v) # rest))))"

record decision =
  primary_mood :: string
  secondary_mood :: string
  model1_prediction :: string
  model2_prediction :: string
  confidence :: "(string \<times> real) list"

text \<open>
  Lines 126 to 148 in the order the source evaluates them, given the sort, the two
  predicted class indices and the two probability rows.
\<close>

definition ensemble ::
  "(real list \<Rightarrow> nat list) \<Rightarrow> int \<Rightarrow> int \<Rightarrow> real list \<Rightarrow> real list \<Rightarrow> py_error + decision" where
  "ensemble argsort pred1 pred2 proba1 proba2 =
     and_then (combined_proba proba1 proba2) (\<lambda>c.
     and_then (np_argmax c) (\<lambda>final_mood_idx.
     and_then (py_index MOOD_NAMES (int final_mood_idx)) (\<lambda>final_mood.
     and_then (py_index (argsort c) (- 2)) (\<lambda>secondary_idx.
     and_then (py_index MOOD_NAMES (int secondary_idx)) (\<lambda>secondary.
     and_then (confidence_loop c [0..<length MOOD_NAMES]) (\<lambda>conf.
     and_then (py_index MOOD_NAMES pred1) (\<lambda>m1.
     and_then (py_index MOOD_NAMES pred2) (\<lambda>m2.
       Inr \<lparr>primary_mood = final_mood, secondary_mood = secondary,
            model1_prediction = m1, model2_prediction = m2,
            confidence = conf\<rparr>))))))))"

section \<open>The endpoints\<close>

subsection \<open>Model artifacts (lines 20 to 29)\<close>

text \<open>
  The pickled scalers and classifiers are external objects. A scaler offers
  \<^verbatim>\<open>transform\<close>, a classifier \<^verbatim>\<open>predict\<close> and \<^verbatim>\<open>predict_proba\<close>; here each takes the
  single row of its input matrix and returns the row (or the class index) it computes
  for it, or raises. Calling a method the object does not have raises
  \<^verbatim>\<open>AttributeError\<close>.
\<close>

datatype artifact =
    Scaler "fval list \<Rightarrow> py_error + fval list"
  | Classifier "fval list \<Rightarrow> py_error + int" "fval list \<Rightarrow> py_error + real list"

fun transform :: "artifact \<Rightarrow> fval list \<Rightarrow> py_error + fval list" where
  "transform (Scaler t) x = t x"
| "transform (Classifier _ _) x = Inl AttributeError"

fun predict :: "artifact \<Rightarrow> fval list \<Rightarrow> py_error + int" where
  "predict (Classifier p _) x = p x"
| "predict (Scaler _) x = Inl AttributeError"

fun predict_proba :: "artifact \<Rightarrow> fval list \<Rightarrow> py_error + real list" where
  "predict_proba (Classifier _ pp) x = pp x"
| "predict_proba (Scaler _) x = Inl AttributeError"

record models =
  model1 :: artifact
  scaler1 :: artifact
  model2 :: artifact
  scaler2 :: artifact

text \<open>
  Lines 21 to 29: four calls of \<^verbatim>\<open>joblib.load\<close>, any exception being re-raised. The
  loader is a parameter, from file name to the object stored there.
\<close>

definition load_models :: "(string \<Rightarrow> py_error + artifact) \<Rightarrow> py_error + models" where
  "load_models joblib_load =
     and_then (joblib_load ''xgb_emotion_model.pkl'') (\<lambda>m1.
     and_then (joblib_load ''xgb_scaler.pkl'') (\<lambda>s1.
     and_then (joblib_load ''xgb_emotion_model2.pkl'') (\<lambda>m2.
     and_then (joblib_load ''xgb_scaler2.pkl'') (\<lambda>s2.
       Inr \<lparr>model1 = m1, scaler1 = s1, model2 = m2, scaler2 = s2\<rparr>))))"

subsection \<open>\<^verbatim>\<open>predict_mood\<close> (lines 91 to 154)\<close>

text \<open>
  The request body is a JSON object; \<^verbatim>\<open>heart_rate\<close> is absent, a number or an array of
  numbers, \<^verbatim>\<open>accelerometer\<close> is absent or an array.
\<close>

datatype hr_input = HRScalar cell | HRSeq "cell list"

record mood_request =
  heart_rate :: "hr_input option"
  accelerometer :: "acc_elem list option"

text \<open>A response: the JSON body with status 200, or an error body with status 400 or 500.\<close>

datatype 'a response = Ok 'a | BadRequest string | ServerError py_error

fun status :: "'a response \<Rightarrow> nat" where
  "status (Ok _) = 200"
| "status (BadRequest _) = 400"
| "status (ServerError _) = 500"

text \<open>Line 101, \<^verbatim>\<open>not heart_rate\<close>: Python truthiness of the field.\<close>

fun falsy :: "hr_input option \<Rightarrow> bool" where
  "falsy None = True"
| "falsy (Some (HRScalar (Int64 w))) = (w = 0)"
| "falsy (Some (HRScalar (Float64 x))) = (x = 0)"
| "falsy (Some (HRSeq xs)) = (xs = [])"

text \<open>
  Lines 105 to 109. The thirty draws of \<^verbatim>\<open>np.random.normal\<close> are a parameter, an array
  of floats; \<^verbatim>\<open>np.clip\<close> bounds each draw below and then above. A sequence goes through
  \<^verbatim>\<open>np.array\<close>.
\<close>

fun hr_sequence :: "real list \<Rightarrow> hr_input \<Rightarrow> cell list" where
  "hr_sequence draws (HRScalar h) =
     map (\<lambda>x. Float64 (min (value_of h + 5) (max (value_of h - 5) x))) draws"
| "hr_sequence draws (HRSeq xs) = np_array1 xs"

text \<open>Lines 111 to 148, the body of the \<^verbatim>\<open>try\<close> after the heart-rate check.\<close>

definition infer ::
  "(real list \<Rightarrow> nat list) \<Rightarrow> models \<Rightarrow> cell list \<Rightarrow> acc_elem list option
     \<Rightarrow> py_error + decision" where
  "infer argsort ms hr acc =
     and_then (extract_features hr acc) (\<lambda>features.
     and_then (transform (scaler1 ms) features) (\<lambda>scaled_features1.
     and_then (transform (scaler2 ms) features) (\<lambda>scaled_features2.
     and_then (predict (model1 ms) scaled_features1) (\<lambda>pred1.
     and_then (predict (model2 ms) scaled_features2) (\<lambda>pred2.
     and_then (predict_proba (model1 ms) scaled_features1) (\<lambda>proba1.
     and_then (predict_proba (model2 ms) scaled_features2) (\<lambda>proba2.
       ensemble argsort pred1 pred2 proba1 proba2)))))))"

text \<open>
  The endpoint: status 400 when the heart rate is missing, status 500 with the
  exception for anything the body raises (lines 150 to 154). Past the check the field
  is present, since an absent field is falsy.
\<close>

definition predict_mood ::
  "(real list \<Rightarrow> nat list) \<Rightarrow> models \<Rightarrow> real list \<Rightarrow> mood_request \<Rightarrow> decision response" where
  "predict_mood argsort ms draws req =
     (if falsy (heart_rate req) then BadRequest ''Heart rate data is required''
      else (case infer argsort ms (hr_sequence draws (the (heart_rate req)))
                   (accelerometer req) of
              Inl e \<Rightarrow> ServerError e
            | Inr d \<Rightarrow> Ok d))"

subsection \<open>\<^verbatim>\<open>recommend_songs\<close> (lines 156 to 191)\<close>

record song =
  song_index :: int
  title :: string
  artists :: string

text \<open>\<^verbatim>\<open>MOOD_NAMES.index(mood)\<close>: the first position of the value, or \<^verbatim>\<open>ValueError\<close>.\<close>

fun list_index :: "'a list \<Rightarrow> 'a \<Rightarrow> py_error + nat" where
  "list_index [] v = Inl ValueError"
| "list_index (x # xs) v =
     (if x = v then Inr 0 else and_then (list_index xs v) (\<lambda>i. Inr (Suc i)))"

text \<open>Lines 169 to 174, the dictionary from mood index to catalog range.\<close>

definition song_ranges :: "nat \<rightharpoonup> int \<times> int" where
  "song_ranges = [0 \<mapsto> (1, 20), 1 \<mapsto> (61, 80), 2 \<mapsto> (21, 40), 3 \<mapsto> (41, 60)]"

text \<open>Lines 166 to 176: from a mood name to its catalog range.\<close>

definition mood_range :: "string \<Rightarrow> py_error + int \<times> int" where
  "mood_range mood =
     and_then (list_index MOOD_NAMES mood) (\<lambda>mood_index.
       case song_ranges mood_index of None \<Rightarrow> Inl KeyError | Some r \<Rightarrow> Inr r)"

text \<open>
  The endpoint. The \<^verbatim>\<open>mood\<close> field is absent or a string; the catalog is a parameter,
  and \<^verbatim>\<open>between\<close> keeps the rows whose index lies in the closed range. The error
  message of the source goes on to list the mood names; it is shortened here.
\<close>

definition recommend_songs :: "song list \<Rightarrow> string option \<Rightarrow> (string \<times> song list) response" where
  "recommend_songs songs_df mood =
     (case mood of
        None \<Rightarrow> BadRequest ''Invalid mood''
      | Some m \<Rightarrow>
          if m = [] \<or> m \<notin> set MOOD_NAMES then BadRequest ''Invalid mood''
          else (case mood_range m of
                  Inl e \<Rightarrow> ServerError e
                | Inr (start_idx, end_idx) \<Rightarrow>
                    Ok (m, filter (\<lambda>s. start_idx \<le> song_index s \<and> song_index s \<le> end_idx)
                             songs_df)))"

section \<open>Inputs used in the properties\<close>

text \<open>
  The two JSON encodings of a sequence of accelerometer triples: one array per triple,
  and the flat row-major array.
\<close>

definition nested_form :: "(cell \<times> cell \<times> cell) list \<Rightarrow> acc_elem list" where
  "nested_form ts = map (\<lambda>(x, y, z). Row [x, y, z]) ts"

definition flat_form :: "(cell \<times> cell \<times> cell) list \<Rightarrow> acc_elem list" where
  "flat_form ts = concat (map (\<lambda>(x, y, z). [Scalar x, Scalar y, Scalar z]) ts)"

text \<open>
  The matrix that a sequence of triples denotes, one row per triple, its entries being
  integers only when all of them are.
\<close>

definition triples_all_int :: "(cell \<times> cell \<times> cell) list \<Rightarrow> bool" where
  "triples_all_int ts = list_all (\<lambda>(x, y, z). is_int x \<and> is_int y \<and> is_int z) ts"

definition rows_of :: "(cell \<times> cell \<times> cell) list \<Rightarrow> cell list list" where
  "rows_of ts =
     map (\<lambda>(x, y, z). map (cast (triples_all_int ts)) [x, y, z]) ts"

text \<open>
  A sort that meets what numpy promises: the stable insertion sort of the positions.
\<close>

definition stable_argsort :: "real list \<Rightarrow> nat list" where
  "stable_argsort xs = sort_key (\<lambda>i. xs ! i) [0..<length xs]"

text \<open>
  Stub artifacts: a scaler that returns its input, and classifiers with fixed outputs.
  The first two classifiers have four classes; the third has five and predicts class 4.
\<close>

definition stub_scaler :: artifact where
  "stub_scaler = Scaler (\<lambda>x. Inr x)"

definition stub_model1 :: artifact where
  "stub_model1 = Classifier (\<lambda>x. Inr 0) (\<lambda>x. Inr [0.7, 0.1, 0.1, 0.1])"

definition stub_model2 :: artifact where
  "stub_model2 = Classifier (\<lambda>x. Inr 0) (\<lambda>x. Inr [0.5, 0.2, 0.2, 0.1])"

definition five_class_model :: artifact where
  "five_class_model = Classifier (\<lambda>x. Inr 4) (\<lambda>x. Inr [0.1, 0.1, 0.1, 0.1, 0.6])"

text \<open>A four-class classifier that predicts the class index 4.\<close>

definition out_of_range_model :: artifact where
  "out_of_range_model = Classifier (\<lambda>x. Inr 4) (\<lambda>x. Inr [0.5, 0.2, 0.2, 0.1])"

definition stub_models :: models where
  "stub_models =
     \<lparr>model1 = stub_model1, scaler1 = stub_scaler, model2 = stub_model2, scaler2 = stub_scaler\<rparr>"

definition mismatched_models :: models where
  "mismatched_models =
     \<lparr>model1 = stub_model1, scaler1 = stub_scaler,
      model2 = five_class_model, scaler2 = stub_scaler\<rparr>"

definition out_of_range_models :: models where
  "out_of_range_models =
     \<lparr>model1 = stub_model1, scaler1 = stub_scaler,
      model2 = out_of_range_model, scaler2 = stub_scaler\<rparr>"

text \<open>A request with four heart-rate samples and a flat accelerometer array of length 7.\<close>

definition flat7_request :: mood_request where
  "flat7_request =
     \<lparr>heart_rate = Some (HRSeq (map Int64 [70, 72, 68, 75])),
      accelerometer = Some (map Scalar (map Int64 [1, 2, 3, 4, 5, 6, 7]))\<rparr>"

text \<open>A request with four heart-rate samples and no accelerometer data.\<close>

definition hr_only_request :: mood_request where
  "hr_only_request =
     \<lparr>heart_rate = Some (HRSeq (map Int64 [70, 72, 68, 75])), accelerometer = None\<rparr>"

text \<open>A model directory whose four files load, the second classifier having five classes.\<close>

definition mismatched_files :: "string \<Rightarrow> py_error + artifact" where
  "mismatched_files name =
     (if name = ''xgb_emotion_model.pkl'' then Inr stub_model1
      else if name = ''xgb_emotion_model2.pkl'' then Inr five_class_model
      else if name = ''xgb_scaler.pkl'' \<or> name = ''xgb_scaler2.pkl'' then Inr stub_scaler
      else Inl LoadError)"

section \<open>Properties\<close>

subsection \<open>Auxiliary facts\<close>

lemma argmax_loop_inv:
  assumes "length pre = i" "best < i" "pre ! best = mx"
    "\<forall>j<i. pre ! j \<le> mx" "\<forall>j<best. pre ! j < mx"
  shows "argmax_loop ys i best mx < length (pre @ ys) \<and>
         (\<forall>j<length (pre @ ys). (pre @ ys) ! j \<le> (pre @ ys) ! argmax_loop ys i best mx) \<and>
         (\<forall>j<argmax_loop ys i best mx. (pre @ ys) ! j < (pre @ ys) ! argmax_loop ys i best mx)"
  using assms
proof (induction ys arbitrary: pre i best mx)
  case Nil
  then show ?case by simp
next
  case (Cons y ys)
  show ?case
  proof (cases "mx < y")
    case True
    have "argmax_loop ys (Suc i) i y < length ((pre @ [y]) @ ys) \<and>
         (\<forall>j<length ((pre @ [y]) @ ys). ((pre @ [y]) @ ys) ! j \<le> ((pre @ [y]) @ ys) ! argmax_loop ys (Suc i) i y) \<and>
         (\<forall>j<argmax_loop ys (Suc i) i y. ((pre @ [y]) @ ys) ! j < ((pre @ [y]) @ ys) ! argmax_loop ys (Suc i) i y)"
      apply (rule Cons.IH)
      using Cons.prems True by (auto simp: nth_append less_Suc_eq)
    then show ?thesis using True by simp
  next
    case False
    have "argmax_loop ys (Suc i) best mx < length ((pre @ [y]) @ ys) \<and>
         (\<forall>j<length ((pre @ [y]) @ ys). ((pre @ [y]) @ ys) ! j \<le> ((pre @ [y]) @ ys) ! argmax_loop ys (Suc i) best mx) \<and>
         (\<forall>j<argmax_loop ys (Suc i) best mx. ((pre @ [y]) @ ys) ! j < ((pre @ [y]) @ ys) ! argmax_loop ys (Suc i) best mx)"
      apply (rule Cons.IH)
      using Cons.prems False by (auto simp: nth_append less_Suc_eq)
    then show ?thesis using False by simp
  qed
qed

lemma np_argmax_first_max:
  assumes "np_argmax c = Inr k"
  shows "k < length c \<and> (\<forall>j<length c. c ! j \<le> c ! k) \<and> (\<forall>j<k. c ! j < c ! k)"
proof (cases c)
  case Nil
  with assms show ?thesis by simp
next
  case (Cons x xs)
  with assms have k: "k = argmax_loop xs 1 0 x" by simp
  have "argmax_loop xs 1 0 x < length ([x] @ xs) \<and>
         (\<forall>j<length ([x] @ xs). ([x] @ xs) ! j \<le> ([x] @ xs) ! argmax_loop xs 1 0 x) \<and>
         (\<forall>j<argmax_loop xs 1 0 x. ([x] @ xs) ! j < ([x] @ xs) ! argmax_loop xs 1 0 x)"
    by (rule argmax_loop_inv) auto
  then show ?thesis using k Cons by simp
qed

lemma and_then_Inr_iff:
  "and_then m f = Inr y \<longleftrightarrow> (\<exists>x. m = Inr x \<and> f x = Inr y)"
  by (cases m) auto

lemma py_index_nat:
  "i < length xs \<Longrightarrow> py_index xs (int i) = Inr (xs ! i)"
  by (simp add: py_index_def)

lemma py_index_in_range:
  "- int (length xs) \<le> i \<Longrightarrow> i < int (length xs) \<Longrightarrow> \<exists>v. py_index xs i = Inr v"
  by (auto simp: py_index_def Let_def)

lemma py_index_out_of_range:
  "i < - int (length xs) \<or> int (length xs) \<le> i \<Longrightarrow> py_index xs i = Inl IndexError"
  by (auto simp: py_index_def Let_def)

lemma py_index_error:
  "py_index xs i = Inl e \<Longrightarrow> e = IndexError"
  by (auto simp: py_index_def split: if_splits)

lemma ascending_positions_length:
  assumes "ascending_positions p xs"
  shows "length p = length xs"
proof -
  have "distinct p" and "set p = {0..<length xs}"
    using assms by (simp_all add: ascending_positions_def)
  then show ?thesis using distinct_card[of p] by simp
qed

lemma ascending_positions_nth:
  assumes "ascending_positions p xs" and "i < length xs"
  shows "p ! i < length xs"
proof -
  have "i < length p" using assms by (simp add: ascending_positions_length)
  then have "p ! i \<in> set p" by simp
  then show ?thesis using assms(1) by (simp add: ascending_positions_def)
qed

lemma stable_argsort_ascending: "ascending_positions (stable_argsort xs) xs"
  by (simp add: ascending_positions_def stable_argsort_def)

lemma confidence_loop_ok:
  "list_all (\<lambda>i. i < length MOOD_NAMES \<and> i < length c) js \<Longrightarrow>
   confidence_loop c js = Inr (map (\<lambda>i. (MOOD_NAMES ! i, c ! i)) js)"
  by (induction js) (simp_all add: py_index_nat)

lemma length_MOOD_NAMES: "length MOOD_NAMES = 4"
  by (simp add: MOOD_NAMES_def)

lemma upt_4: "[0..<4] = [0, 1, 2, 3]"
  by (simp add: upt_rec)

lemma combined_proba_same_length:
  "length proba1 = length proba2 \<Longrightarrow>
   combined_proba proba1 proba2 = Inr (map2 (\<lambda>a b. 0.6 * a + 0.4 * b) proba1 proba2)"
  by (simp add: combined_proba_def)

lemma ensemble_after_argmax:
  assumes "length proba1 = 4" "length proba2 = 4"
    and c: "c = map2 (\<lambda>a b. 0.6 * a + 0.4 * b) proba1 proba2"
    and k: "np_argmax c = Inr k"
  shows "ensemble argsort pred1 pred2 proba1 proba2 =
     and_then (py_index (argsort c) (- 2)) (\<lambda>secondary_idx.
     and_then (py_index MOOD_NAMES (int secondary_idx)) (\<lambda>secondary.
     and_then (py_index MOOD_NAMES pred1) (\<lambda>m1.
     and_then (py_index MOOD_NAMES pred2) (\<lambda>m2.
       Inr \<lparr>primary_mood = MOOD_NAMES ! k, secondary_mood = secondary,
            model1_prediction = m1, model2_prediction = m2,
            confidence = map (\<lambda>i. (MOOD_NAMES ! i, c ! i)) [0, 1, 2, 3]\<rparr>))))"
proof -
  have len: "length c = 4" using assms by simp
  have cp: "combined_proba proba1 proba2 = Inr c"
    using assms by (simp add: combined_proba_same_length)
  have "k < length c" using np_argmax_first_max[OF k] by simp
  then have k4: "k < length MOOD_NAMES" using len by (simp add: length_MOOD_NAMES)
  have conf: "confidence_loop c [0..<length MOOD_NAMES] = Inr (map (\<lambda>i. (MOOD_NAMES ! i, c ! i)) [0, 1, 2, 3])"
    using confidence_loop_ok[of c "[0, 1, 2, 3]"] len
    by (simp add: length_MOOD_NAMES upt_4)
  show ?thesis
    unfolding ensemble_def
    by (simp add: cp k py_index_nat[OF k4] conf)
qed

lemma ensemble_4:
  assumes "length proba1 = 4" "length proba2 = 4"
    and c: "c = map2 (\<lambda>a b. 0.6 * a + 0.4 * b) proba1 proba2"
    and k: "np_argmax c = Inr k"
    and a: "ascending_positions (argsort c) c"
  shows "ensemble argsort pred1 pred2 proba1 proba2 =
     and_then (py_index MOOD_NAMES pred1) (\<lambda>m1.
     and_then (py_index MOOD_NAMES pred2) (\<lambda>m2.
       Inr \<lparr>primary_mood = MOOD_NAMES ! k,
            secondary_mood = MOOD_NAMES ! (argsort c ! 2),
            model1_prediction = m1, model2_prediction = m2,
            confidence = map (\<lambda>i. (MOOD_NAMES ! i, c ! i)) [0, 1, 2, 3]\<rparr>))"
proof -
  have len: "length c = 4" using assms by simp
  have la: "length (argsort c) = 4" using ascending_positions_length[OF a] len by simp
  have s2: "py_index (argsort c) (- 2) = Inr (argsort c ! 2)"
    using la by (simp add: py_index_def)
  have "argsort c ! 2 < length c"
    by (rule ascending_positions_nth[OF a]) (simp add: len)
  then have s4: "argsort c ! 2 < length MOOD_NAMES"
    using len by (simp add: length_MOOD_NAMES)
  show ?thesis
    unfolding ensemble_after_argmax[OF assms(1,2) c k]
    by (simp add: s2 py_index_nat[OF s4])
qed

lemma length_4_obtain:
  assumes "length xs = 4"
  obtains a b c d where "xs = [a, b, c, d]"
proof -
  from assms obtain a t1 where 1: "xs = a # t1" "length t1 = 3"
    by (cases xs) auto
  then obtain b t2 where 2: "t1 = b # t2" "length t2 = 2"
    by (cases t1) auto
  then obtain c t3 where 3: "t2 = c # t3" "length t3 = 1"
    by (cases t2) auto
  then obtain d where 4: "t3 = [d]"
    by (cases t3) auto
  show thesis using that 1 2 3 4 by simp
qed

subsection \<open>Blend and primary mood\<close>

text \<open>
  Claim C1. For two probability rows of four entries each, the blend succeeds with
  \<open>c ! i = 0.6 * proba1 ! i + 0.4 * proba2 ! i\<close> at every class \<open>i\<close>; \<^verbatim>\<open>np.argmax\<close>
  returns a position \<open>k\<close> of a largest entry such that every earlier entry is strictly
  smaller (the first occurrence wins a tie); every decision the ensemble returns has
  \<open>MOOD_NAMES ! k\<close> as its primary mood, and a decision is returned whenever the two
  predicted class indices are valid indices of \<open>MOOD_NAMES\<close>. This holds for every sort
  that returns an ascending arrangement of the positions.
\<close>

theorem blend_primary_mood:
  assumes "length proba1 = 4" and "length proba2 = 4"
    and srt: "\<And>xs. ascending_positions (argsort xs) xs"
  shows "\<exists>c k. combined_proba proba1 proba2 = Inr c \<and> length c = 4 \<and>
           (\<forall>i<4. c ! i = 0.6 * proba1 ! i + 0.4 * proba2 ! i) \<and>
           np_argmax c = Inr k \<and> k < 4 \<and>
           (\<forall>j<4. c ! j \<le> c ! k) \<and> (\<forall>j<k. c ! j < c ! k) \<and>
           (\<forall>pred1 pred2 d. ensemble argsort pred1 pred2 proba1 proba2 = Inr d
               \<longrightarrow> primary_mood d = MOOD_NAMES ! k) \<and>
           (\<forall>pred1 pred2. - 4 \<le> pred1 \<and> pred1 < 4 \<and> - 4 \<le> pred2 \<and> pred2 < 4
               \<longrightarrow> (\<exists>d. ensemble argsort pred1 pred2 proba1 proba2 = Inr d))"
proof -
  define c where "c = map2 (\<lambda>a b. 0.6 * a + 0.4 * b) proba1 proba2"
  have len: "length c = 4" using assms by (simp add: c_def)
  have cp: "combined_proba proba1 proba2 = Inr c"
    using assms by (simp add: combined_proba_same_length c_def)
  have nth: "\<forall>i<4. c ! i = 0.6 * proba1 ! i + 0.4 * proba2 ! i"
    using assms by (simp add: c_def)
  obtain k where k: "np_argmax c = Inr k"
    using len by (cases c) auto
  have mx: "k < 4 \<and> (\<forall>j<4. c ! j \<le> c ! k) \<and> (\<forall>j<k. c ! j < c ! k)"
    using np_argmax_first_max[OF k] unfolding len .
  have ens: "ensemble argsort pred1 pred2 proba1 proba2 =
     and_then (py_index MOOD_NAMES pred1) (\<lambda>m1.
     and_then (py_index MOOD_NAMES pred2) (\<lambda>m2.
       Inr \<lparr>primary_mood = MOOD_NAMES ! k,
            secondary_mood = MOOD_NAMES ! (argsort c ! 2),
            model1_prediction = m1, model2_prediction = m2,
            confidence = map (\<lambda>i. (MOOD_NAMES ! i, c ! i)) [0, 1, 2, 3]\<rparr>))"
    for pred1 pred2
    by (rule ensemble_4[of proba1 proba2 c k argsort, OF assms(1,2) c_def k srt])
  have prim: "primary_mood d = MOOD_NAMES ! k"
    if "ensemble argsort pred1 pred2 proba1 proba2 = Inr d" for pred1 pred2 d
    using that unfolding ens by (auto simp: and_then_Inr_iff)
  have ex: "\<exists>d. ensemble argsort pred1 pred2 proba1 proba2 = Inr d"
    if rng: "- 4 \<le> pred1 \<and> pred1 < 4 \<and> - 4 \<le> pred2 \<and> pred2 < 4" for pred1 pred2
  proof -
    obtain m1 where m1: "py_index MOOD_NAMES pred1 = Inr m1"
      using py_index_in_range[of MOOD_NAMES pred1] rng by (auto simp: length_MOOD_NAMES)
    obtain m2 where m2: "py_index MOOD_NAMES pred2 = Inr m2"
      using py_index_in_range[of MOOD_NAMES pred2] rng by (auto simp: length_MOOD_NAMES)
    show ?thesis unfolding ens by (simp add: m1 m2)
  qed
  show ?thesis
    using cp len nth k mx prim ex by blast
qed

theorem blend_primary_mood_witness:
  "combined_proba [0.1, 0.4, 0.4, 0.1] [0.1, 0.4, 0.4, 0.1] = Inr [0.1, 0.4, 0.4, 0.1] \<and>
   np_argmax [0.1, 0.4, 0.4, 0.1] = Inr 1 \<and>
   (\<exists>d. ensemble stable_argsort 0 3 [0.1, 0.4, 0.4, 0.1] [0.1, 0.4, 0.4, 0.1] = Inr d \<and>
        primary_mood d = ''Angry'')"
proof -
  let ?p = "[0.1, 0.4, 0.4, 0.1] :: real list"
  have l: "length ?p = 4" by simp
  from blend_primary_mood[OF l l stable_argsort_ascending] obtain c k where
    c: "combined_proba ?p ?p = Inr c" and k: "np_argmax c = Inr k" and
    prim: "\<forall>pred1 pred2 d. ensemble stable_argsort pred1 pred2 ?p ?p = Inr d
             \<longrightarrow> primary_mood d = MOOD_NAMES ! k" and
    ex: "\<forall>pred1 pred2. - 4 \<le> pred1 \<and> pred1 < 4 \<and> - 4 \<le> pred2 \<and> pred2 < 4
               \<longrightarrow> (\<exists>d. ensemble stable_argsort pred1 pred2 ?p ?p = Inr d)"
    by blast
  have c_eq: "c = ?p" using c by (simp add: combined_proba_def)
  have k_eq: "k = 1" using k unfolding c_eq by simp
  from ex obtain d where d: "ensemble stable_argsort 0 3 ?p ?p = Inr d" by force
  with prim have "primary_mood d = MOOD_NAMES ! k" by blast
  then have "primary_mood d = ''Angry''" by (simp add: k_eq MOOD_NAMES_def)
  with d c k show ?thesis unfolding c_eq k_eq by blast
qed

subsection \<open>Secondary mood\<close>

lemma ascending_order_example:
  fixes p :: "nat list"
  assumes a: "ascending_positions p [0.62, 0.14, 0.14, 0.10]"
  shows "p ! 2 = 1 \<or> p ! 2 = 2"
proof -
  let ?c = "[0.62, 0.14, 0.14, 0.10 :: real]"
  have d: "distinct p" and s0: "set p = {0..<length ?c}"
    and srt: "sorted (map (\<lambda>i. ?c ! i) p)"
    using a unfolding ascending_positions_def by blast+
  have l4: "length ?c = 4" by simp
  have s: "set p = {0..<4}" using s0 unfolding l4 .
  have "length p = 4"
    using ascending_positions_length[OF a] by simp
  then obtain a b e f where p: "p = [a, b, e, f]"
    by (rule length_4_obtain)
  have lt: "a < 4" "b < 4" "e < 4" "f < 4"
    using s unfolding p by auto
  have ne: "a \<noteq> b" "a \<noteq> e" "a \<noteq> f" "b \<noteq> e" "b \<noteq> f" "e \<noteq> f"
    using d unfolding p by auto
  have le: "?c ! a \<le> ?c ! b" "?c ! b \<le> ?c ! e" "?c ! e \<le> ?c ! f"
    using srt unfolding p by auto
  have "e \<noteq> 0"
  proof
    assume "e = 0"
    with ne lt have "f = 1 \<or> f = 2 \<or> f = 3" by arith
    with le(3) \<open>e = 0\<close> show False by auto
  qed
  moreover have "e \<noteq> 3"
  proof
    assume "e = 3"
    with ne lt have "b = 0 \<or> b = 1 \<or> b = 2" by arith
    with le(2) \<open>e = 3\<close> show False by auto
  qed
  ultimately have "e = 1 \<or> e = 2" using lt(3) by arith
  then show ?thesis unfolding p by simp
qed

text \<open>
  Claim C3. For every sort that returns an ascending arrangement of the positions, two
  probability rows of four entries and valid predicted indices, the ensemble returns a
  decision whose secondary mood is the name at the second-from-last position of the
  sort of the blend. For the rows \<open>[0.7, 0.1, 0.1, 0.1]\<close> and \<open>[0.5, 0.2, 0.2, 0.1]\<close> the
  blend is \<open>[0.62, 0.14, 0.14, 0.10]\<close>, the primary mood is Happy and the secondary mood
  is Angry or Sad, the two classes tied at \<open>0.14\<close>; which of the two is left to the
  sort, since both orders of the tied positions are ascending arrangements.
\<close>

theorem secondary_mood_argsort:
  assumes srt: "\<And>xs. ascending_positions (argsort xs) xs"
  shows
  "(length proba1 = 4 \<and> length proba2 = 4 \<and>
    - 4 \<le> pred1 \<and> pred1 < 4 \<and> - 4 \<le> pred2 \<and> pred2 < 4 \<longrightarrow>
      (\<exists>c d. combined_proba proba1 proba2 = Inr c \<and>
             ensemble argsort pred1 pred2 proba1 proba2 = Inr d \<and>
             ascending_positions (argsort c) c \<and>
             secondary_mood d = MOOD_NAMES ! (argsort c ! (length (argsort c) - 2)))) \<and>
   combined_proba [0.7, 0.1, 0.1, 0.1] [0.5, 0.2, 0.2, 0.1] = Inr [0.62, 0.14, 0.14, 0.10] \<and>
   (\<exists>d. ensemble argsort 0 0 [0.7, 0.1, 0.1, 0.1] [0.5, 0.2, 0.2, 0.1] = Inr d \<and>
        primary_mood d = ''Happy'' \<and>
        (secondary_mood d = ''Angry'' \<or> secondary_mood d = ''Sad'')) \<and>
   ascending_positions [3, 1, 2, 0] [0.62, 0.14, 0.14, 0.10] \<and>
   ascending_positions [3, 2, 1, 0] [0.62, 0.14, 0.14, 0.10]"
proof (intro conjI impI)
  assume h: "length proba1 = 4 \<and> length proba2 = 4 \<and>
    - 4 \<le> pred1 \<and> pred1 < 4 \<and> - 4 \<le> pred2 \<and> pred2 < 4"
  define c where "c = map2 (\<lambda>a b. 0.6 * a + 0.4 * b) proba1 proba2"
  have len: "length c = 4" using h by (simp add: c_def)
  have cp: "combined_proba proba1 proba2 = Inr c"
    using h by (simp add: combined_proba_same_length c_def)
  obtain k where k: "np_argmax c = Inr k"
    using len by (cases c) auto
  obtain m1 where m1: "py_index MOOD_NAMES pred1 = Inr m1"
    using py_index_in_range[of MOOD_NAMES pred1] h by (auto simp: length_MOOD_NAMES)
  obtain m2 where m2: "py_index MOOD_NAMES pred2 = Inr m2"
    using py_index_in_range[of MOOD_NAMES pred2] h by (auto simp: length_MOOD_NAMES)
  have l1: "length proba1 = 4" and l2: "length proba2 = 4" using h by simp_all
  have a: "ascending_positions (argsort c) c" by (rule srt)
  have la: "length (argsort c) = 4" using ascending_positions_length[OF a] len by simp
  have ens: "ensemble argsort pred1 pred2 proba1 proba2 =
       Inr \<lparr>primary_mood = MOOD_NAMES ! k,
            secondary_mood = MOOD_NAMES ! (argsort c ! 2),
            model1_prediction = m1, model2_prediction = m2,
            confidence = map (\<lambda>i. (MOOD_NAMES ! i, c ! i)) [0, 1, 2, 3]\<rparr>"
    by (simp add: ensemble_4[of proba1 proba2 c k argsort, OF l1 l2 c_def k a] m1 m2)
  show "\<exists>c d. combined_proba proba1 proba2 = Inr c \<and>
             ensemble argsort pred1 pred2 proba1 proba2 = Inr d \<and>
             ascending_positions (argsort c) c \<and>
             secondary_mood d = MOOD_NAMES ! (argsort c ! (length (argsort c) - 2))"
    using cp ens a by (simp add: la)
next
  show "combined_proba [0.7, 0.1, 0.1, 0.1] [0.5, 0.2, 0.2, 0.1] = Inr [0.62, 0.14, 0.14, 0.10]"
    by (simp add: combined_proba_def)
next
  let ?p1 = "[0.7, 0.1, 0.1, 0.1] :: real list" and ?p2 = "[0.5, 0.2, 0.2, 0.1] :: real list"
  let ?c = "[0.62, 0.14, 0.14, 0.10] :: real list"
  have c: "?c = map2 (\<lambda>a b. 0.6 * a + 0.4 * b) ?p1 ?p2" by simp
  have k: "np_argmax ?c = Inr 0" by simp
  have a: "ascending_positions (argsort ?c) ?c" by (rule srt)
  have e4: "ensemble argsort 0 0 ?p1 ?p2 =
     and_then (py_index MOOD_NAMES 0) (\<lambda>m1.
     and_then (py_index MOOD_NAMES 0) (\<lambda>m2.
       Inr \<lparr>primary_mood = MOOD_NAMES ! 0,
            secondary_mood = MOOD_NAMES ! (argsort ?c ! 2),
            model1_prediction = m1, model2_prediction = m2,
            confidence = map (\<lambda>i. (MOOD_NAMES ! i, ?c ! i)) [0, 1, 2, 3]\<rparr>))"
    by (rule ensemble_4[of ?p1 ?p2 ?c 0 argsort, OF _ _ c k a]) simp_all
  have m: "py_index MOOD_NAMES 0 = Inr ''Happy''"
    by (simp add: py_index_def MOOD_NAMES_def)
  have ens: "ensemble argsort 0 0 ?p1 ?p2 =
       Inr \<lparr>primary_mood = MOOD_NAMES ! 0,
            secondary_mood = MOOD_NAMES ! (argsort ?c ! 2),
            model1_prediction = ''Happy'', model2_prediction = ''Happy'',
            confidence = map (\<lambda>i. (MOOD_NAMES ! i, ?c ! i)) [0, 1, 2, 3]\<rparr>"
    unfolding e4 m by simp
  have "argsort ?c ! 2 = 1 \<or> argsort ?c ! 2 = 2"
    by (rule ascending_order_example[OF a])
  then have "MOOD_NAMES ! (argsort ?c ! 2) = ''Angry'' \<or> MOOD_NAMES ! (argsort ?c ! 2) = ''Sad''"
    by (auto simp: MOOD_NAMES_def)
  moreover have "MOOD_NAMES ! 0 = ''Happy''" by (simp add: MOOD_NAMES_def)
  ultimately show "\<exists>d. ensemble argsort 0 0 ?p1 ?p2 = Inr d \<and>
        primary_mood d = ''Happy'' \<and>
        (secondary_mood d = ''Angry'' \<or> secondary_mood d = ''Sad'')"
    unfolding ens by simp
next
  show "ascending_positions [3, 1, 2, 0] [0.62, 0.14, 0.14, 0.10]"
    by (auto simp: ascending_positions_def)
next
  show "ascending_positions [3, 2, 1, 0] [0.62, 0.14, 0.14, 0.10]"
    by (auto simp: ascending_positions_def)
qed

theorem secondary_mood_argsort_witness:
  "combined_proba [0.1, 0.2, 0.3, 0.4] [0.1, 0.2, 0.3, 0.4] = Inr [0.1, 0.2, 0.3, 0.4] \<and>
   stable_argsort [0.1, 0.2, 0.3, 0.4] = [0, 1, 2, 3] \<and>
   (\<exists>d. ensemble stable_argsort 3 3 [0.1, 0.2, 0.3, 0.4] [0.1, 0.2, 0.3, 0.4] = Inr d \<and>
        secondary_mood d = ''Sad'')"
proof -
  let ?p = "[0.1, 0.2, 0.3, 0.4] :: real list"
  have "length ?p = 4 \<and> length ?p = 4 \<and> - 4 \<le> (3::int) \<and> (3::int) < 4 \<and> - 4 \<le> (3::int) \<and> (3::int) < 4"
    by simp
  with secondary_mood_argsort[of stable_argsort ?p ?p 3 3, OF stable_argsort_ascending]
  obtain c d where
    c: "combined_proba ?p ?p = Inr c" and d: "ensemble stable_argsort 3 3 ?p ?p = Inr d" and
    s: "secondary_mood d = MOOD_NAMES ! (stable_argsort c ! (length (stable_argsort c) - 2))"
    by blast
  have c_eq: "c = ?p" using c by (simp add: combined_proba_def)
  have a: "stable_argsort ?p = [0, 1, 2, 3]" by (simp add: stable_argsort_def upt_4)
  have "secondary_mood d = ''Sad''" using s unfolding c_eq a by (simp add: MOOD_NAMES_def)
  with c d a show ?thesis unfolding c_eq by blast
qed

subsection \<open>Confidence map\<close>

text \<open>
  Claim C8. When each model's row has four entries that sum to one (and the predicted
  indices are valid), the ensemble returns a decision whose confidence map has the four
  mood names as keys and values that sum to exactly one, hence to one within \<open>1e-6\<close>,
  for every sort that returns an ascending arrangement of the positions.
\<close>

theorem confidence_sums_to_one:
  assumes "length proba1 = 4" and "length proba2 = 4"
    and "sum_list proba1 = 1" and "sum_list proba2 = 1"
    and "- 4 \<le> pred1 \<and> pred1 < 4" and "- 4 \<le> pred2 \<and> pred2 < 4"
    and srt: "\<And>xs. ascending_positions (argsort xs) xs"
  shows "\<exists>d. ensemble argsort pred1 pred2 proba1 proba2 = Inr d \<and>
           map fst (confidence d) = MOOD_NAMES \<and>
           sum_list (map snd (confidence d)) = 1 \<and>
           \<bar>sum_list (map snd (confidence d)) - 1\<bar> \<le> 0.000001"
proof -
  define c where "c = map2 (\<lambda>a b. 0.6 * a + 0.4 * b) proba1 proba2"
  have len: "length c = 4" using assms by (simp add: c_def)
  obtain k where k: "np_argmax c = Inr k"
    using len by (cases c) auto
  obtain m1 where m1: "py_index MOOD_NAMES pred1 = Inr m1"
    using py_index_in_range[of MOOD_NAMES pred1] assms(5) by (auto simp: length_MOOD_NAMES)
  obtain m2 where m2: "py_index MOOD_NAMES pred2 = Inr m2"
    using py_index_in_range[of MOOD_NAMES pred2] assms(6) by (auto simp: length_MOOD_NAMES)
  define d where "d = \<lparr>primary_mood = MOOD_NAMES ! k,
            secondary_mood = MOOD_NAMES ! (argsort c ! 2),
            model1_prediction = m1, model2_prediction = m2,
            confidence = map (\<lambda>i. (MOOD_NAMES ! i, c ! i)) [0, 1, 2, 3]\<rparr>"
  have ens: "ensemble argsort pred1 pred2 proba1 proba2 = Inr d"
    by (simp add: ensemble_4[of proba1 proba2 c k argsort, OF assms(1,2) c_def k srt] m1 m2 d_def)
  have keys: "map fst (confidence d) = MOOD_NAMES"
    by (simp add: d_def MOOD_NAMES_def)
  obtain a1 a2 a3 a4 where p1: "proba1 = [a1, a2, a3, a4]"
    using assms(1) by (rule length_4_obtain)
  obtain b1 b2 b3 b4 where p2: "proba2 = [b1, b2, b3, b4]"
    using assms(2) by (rule length_4_obtain)
  have "sum_list (map snd (confidence d)) = 0.6 * sum_list proba1 + 0.4 * sum_list proba2"
    by (simp add: d_def c_def p1 p2 field_simps)
  then have total: "sum_list (map snd (confidence d)) = 1"
    using assms(3,4) by simp
  show ?thesis using ens keys total by simp
qed

theorem confidence_sums_to_one_witness:
  "sum_list [0.7, 0.1, 0.1, 0.1 :: real] = 1 \<and> sum_list [0.5, 0.2, 0.2, 0.1 :: real] = 1 \<and>
   (\<exists>d. ensemble stable_argsort 0 0 [0.7, 0.1, 0.1, 0.1] [0.5, 0.2, 0.2, 0.1] = Inr d \<and>
        sum_list (map snd (confidence d)) = 1)"
proof -
  let ?p1 = "[0.7, 0.1, 0.1, 0.1] :: real list" and ?p2 = "[0.5, 0.2, 0.2, 0.1] :: real list"
  have s1: "sum_list ?p1 = 1" and s2: "sum_list ?p2 = 1" by simp_all
  have r: "- 4 \<le> (0::int) \<and> (0::int) < 4" by simp
  from confidence_sums_to_one[of ?p1 ?p2 0 0 stable_argsort, OF _ _ s1 s2 r r stable_argsort_ascending]
  obtain d where "ensemble stable_argsort 0 0 ?p1 ?p2 = Inr d" "sum_list (map snd (confidence d)) = 1"
    by auto
  with s1 s2 show ?thesis by blast
qed

subsection \<open>Mood to catalog range\<close>

text \<open>
  Claim C9. \<open>MOOD_NAMES\<close> is the ordered list Happy, Angry, Sad, Relaxed with positions
  0 to 3; the range dictionary has exactly these four positions as keys; every mood name
  has a range, namely Happy (1, 20), Angry (61, 80), Sad (21, 40) and Relaxed (41, 60);
  and for each of the four names the endpoint answers with the catalog rows whose index
  lies in that closed range.
\<close>

theorem mood_range_total:
  "MOOD_NAMES = [''Happy'', ''Angry'', ''Sad'', ''Relaxed''] \<and>
   map (list_index MOOD_NAMES) MOOD_NAMES = [Inr 0, Inr 1, Inr 2, Inr 3] \<and>
   dom song_ranges = {0, 1, 2, 3} \<and>
   map mood_range MOOD_NAMES = [Inr (1, 20), Inr (61, 80), Inr (21, 40), Inr (41, 60)] \<and>
   recommend_songs songs_df (Some ''Happy'') =
     Ok (''Happy'', filter (\<lambda>s. 1 \<le> song_index s \<and> song_index s \<le> 20) songs_df) \<and>
   recommend_songs songs_df (Some ''Angry'') =
     Ok (''Angry'', filter (\<lambda>s. 61 \<le> song_index s \<and> song_index s \<le> 80) songs_df) \<and>
   recommend_songs songs_df (Some ''Sad'') =
     Ok (''Sad'', filter (\<lambda>s. 21 \<le> song_index s \<and> song_index s \<le> 40) songs_df) \<and>
   recommend_songs songs_df (Some ''Relaxed'') =
     Ok (''Relaxed'', filter (\<lambda>s. 41 \<le> song_index s \<and> song_index s \<le> 60) songs_df)"
proof -
  have idx: "map (list_index MOOD_NAMES) MOOD_NAMES = [Inr 0, Inr 1, Inr 2, Inr 3]"
    by (simp add: MOOD_NAMES_def)
  have rng: "map mood_range MOOD_NAMES = [Inr (1, 20), Inr (61, 80), Inr (21, 40), Inr (41, 60)]"
    by (simp add: MOOD_NAMES_def mood_range_def song_ranges_def)
  have d: "dom song_ranges = {0, 1, 2, 3}"
    by (auto simp: song_ranges_def)
  have r: "mood_range ''Happy'' = Inr (1, 20)" "mood_range ''Angry'' = Inr (61, 80)"
      "mood_range ''Sad'' = Inr (21, 40)" "mood_range ''Relaxed'' = Inr (41, 60)"
    using rng by (simp_all add: MOOD_NAMES_def)
  have m: "''Happy'' \<in> set MOOD_NAMES" "''Angry'' \<in> set MOOD_NAMES"
      "''Sad'' \<in> set MOOD_NAMES" "''Relaxed'' \<in> set MOOD_NAMES"
    by (simp_all add: MOOD_NAMES_def)
  show ?thesis
    using idx rng d by (simp add: recommend_songs_def r m) (simp add: MOOD_NAMES_def)
qed

subsection \<open>Falsy heart rate\<close>

text \<open>
  Claim C10. Whatever the sort, the models, the random draws and the accelerometer field,
  a request whose heart rate is absent, the empty sequence or the scalar zero (the
  integer \<open>0\<close> or the float \<open>0.0\<close>) is answered with the status-400 error
  \<^verbatim>\<open>Heart rate data is required\<close>; these are exactly the falsy values of the field, so the
  scalar zero is never turned into a synthetic sequence, whereas a non-zero scalar such
  as 70 is not answered with status 400.
\<close>

theorem falsy_heart_rate_rejected:
  "predict_mood argsort ms draws \<lparr>heart_rate = None, accelerometer = acc\<rparr>
     = BadRequest ''Heart rate data is required'' \<and>
   predict_mood argsort ms draws \<lparr>heart_rate = Some (HRSeq []), accelerometer = acc\<rparr>
     = BadRequest ''Heart rate data is required'' \<and>
   predict_mood argsort ms draws \<lparr>heart_rate = Some (HRScalar (Int64 0)), accelerometer = acc\<rparr>
     = BadRequest ''Heart rate data is required'' \<and>
   predict_mood argsort ms draws \<lparr>heart_rate = Some (HRScalar (Float64 0)), accelerometer = acc\<rparr>
     = BadRequest ''Heart rate data is required'' \<and>
   status (BadRequest ''Heart rate data is required'' :: decision response) = 400 \<and>
   falsy h = (h = None \<or> h = Some (HRSeq []) \<or> h = Some (HRScalar (Int64 0)) \<or>
              h = Some (HRScalar (Float64 0))) \<and>
   status (predict_mood argsort ms draws
             \<lparr>heart_rate = Some (HRScalar (Int64 70)), accelerometer = acc\<rparr>) \<noteq> 400 \<and>
   status (predict_mood argsort ms draws
             \<lparr>heart_rate = Some (HRScalar (Float64 70)), accelerometer = acc\<rparr>) \<noteq> 400"
proof -
  have f: "falsy h = (h = None \<or> h = Some (HRSeq []) \<or> h = Some (HRScalar (Int64 0)) \<or>
              h = Some (HRScalar (Float64 0)))"
  proof (cases h)
    case None
    then show ?thesis by simp
  next
    case (Some v)
    show ?thesis
    proof (cases v)
      case (HRScalar c)
      with Some show ?thesis by (cases c) auto
    next
      case (HRSeq xs)
      with Some show ?thesis by auto
    qed
  qed
  have s1: "status (predict_mood argsort ms draws
             \<lparr>heart_rate = Some (HRScalar (Int64 70)), accelerometer = acc\<rparr>) \<noteq> 400"
    by (simp add: predict_mood_def split: sum.split)
  have s2: "status (predict_mood argsort ms draws
             \<lparr>heart_rate = Some (HRScalar (Float64 70)), accelerometer = acc\<rparr>) \<noteq> 400"
    by (simp add: predict_mood_def split: sum.split)
  show ?thesis using f s1 s2 by (simp add: predict_mood_def)
qed

subsection \<open>Facts about the statistics\<close>

lemma fold_min_le: "fold min xs (x::real) \<le> x"
proof (induction xs arbitrary: x)
  case Nil
  show ?case by simp
next
  case (Cons a xs)
  have "fold min xs (min a x) \<le> min a x" by (rule Cons.IH)
  then show ?case by simp
qed

lemma fold_max_ge: "(x::real) \<le> fold max xs x"
proof (induction xs arbitrary: x)
  case Nil
  show ?case by simp
next
  case (Cons a xs)
  have "max a x \<le> fold max xs (max a x)" by (rule Cons.IH)
  then show ?case by simp
qed

lemma np_min_le_np_max:
  "np_min xs = Inr mn \<Longrightarrow> np_max xs = Inr mx \<Longrightarrow> mn \<le> mx"
  by (cases xs) (auto intro: order_trans[OF fold_min_le fold_max_ge])

lemma np_min_nonempty: "xs \<noteq> [] \<Longrightarrow> \<exists>mn. np_min xs = Inr mn"
  by (cases xs) auto

lemma np_max_nonempty: "xs \<noteq> [] \<Longrightarrow> \<exists>mx. np_max xs = Inr mx"
  by (cases xs) auto

lemma features8_empty: "features8 [] = Inl ValueError"
  by (simp add: features8_def Let_def)

lemma features8_nonempty:
  assumes "np_min (map value_of xs) = Inr mn" and "np_max (map value_of xs) = Inr mx"
  shows "features8 xs =
       Inr [Num (np_mean (map value_of xs)), Num (np_std (map value_of xs)),
            Num mn, Num mx, Num (energy xs),
            (if length xs > 2 then skew (map value_of xs) else Num 0),
            (if length xs > 3 then kurtosis (map value_of xs) else Num 0),
            entropy (map (\<lambda>d. d + 0.000001) (histogram_density mn mx (map value_of xs)))]"
  using assms by (simp add: features8_def Let_def)

lemma features8_returns:
  assumes "xs \<noteq> []"
  shows "\<exists>fs. features8 xs = Inr fs \<and> length fs = 8"
proof -
  have ne: "map value_of xs \<noteq> []" using assms by simp
  obtain mn where mn: "np_min (map value_of xs) = Inr mn"
    using np_min_nonempty[OF ne] by blast
  obtain mx where mx: "np_max (map value_of xs) = Inr mx"
    using np_max_nonempty[OF ne] by blast
  show ?thesis unfolding features8_nonempty[OF mn mx] by simp
qed

text \<open>
  The energy of a float array is the mean of the squares; that of an integer array is
  the 64-bit sum of the 64-bit squares, read as a signed integer, over the length.
\<close>

lemma fold_add_floats:
  "list_all (\<lambda>c. \<not> is_int c) ys \<Longrightarrow>
   value_of (fold (\<lambda>x total. add total x) ys acc) = value_of acc + sum_list (map value_of ys)"
proof (induction ys arbitrary: acc)
  case Nil
  show ?case by simp
next
  case (Cons y ys)
  then obtain b where y: "y = Float64 b" by (cases y) auto
  have "value_of (add acc y) = value_of acc + b"
    unfolding y by (cases acc) simp_all
  then show ?case using Cons by (simp add: y)
qed

lemma energy_of_floats:
  "energy (map Float64 xs) = sum_list (map (\<lambda>x. x * x) xs) / real (length xs)"
proof -
  have "list_all (\<lambda>c. \<not> is_int c) (map square (map Float64 xs))"
    by (induction xs) simp_all
  then have "value_of (np_sum (map square (map Float64 xs)))
               = sum_list (map value_of (map square (map Float64 xs)))"
    unfolding np_sum_def by (simp add: fold_add_floats)
  also have "\<dots> = sum_list (map (\<lambda>x. x * x) xs)"
    by (simp add: comp_def)
  finally show ?thesis by (simp add: energy_def)
qed

lemma fold_add_ints:
  "fold (\<lambda>x total. add total x) (map Int64 ws) (Int64 a) = Int64 (a + sum_list ws)"
  by (induction ws arbitrary: a) (simp_all add: add.assoc)

lemma energy_of_ints:
  "energy (map Int64 ws) =
     real_of_int (sint (sum_list (map (\<lambda>w. w * w) ws))) / real (length ws)"
proof -
  have "map square (map Int64 ws) = map Int64 (map (\<lambda>w. w * w) ws)"
    by simp
  then show ?thesis
    by (simp add: energy_def np_sum_def fold_add_ints del: map_map)
qed

lemma histogram_width_pos:
  assumes "mn \<le> mx" and "histogram_range mn mx = (lo, hi)"
  shows "0 < hi - lo"
  using assms by (auto simp: histogram_range_def split: if_splits)

lemma histogram_density_nonneg:
  assumes "mn \<le> mx" and "d \<in> set (histogram_density mn mx xs)"
  shows "0 \<le> d"
proof -
  obtain lo hi where r: "histogram_range mn mx = (lo, hi)"
    by (cases "histogram_range mn mx")
  have "0 < hi - lo" using assms(1) r by (rule histogram_width_pos)
  then show ?thesis
    using assms(2) by (auto simp: histogram_density_def r)
qed

lemma length_histogram_density: "length (histogram_density mn mx xs) = 10"
  by (simp add: histogram_density_def split: prod.split)

lemma sum_list_pos_real:
  fixes ys :: "real list"
  assumes "ys \<noteq> []" and "\<forall>y\<in>set ys. 0 < y"
  shows "0 < sum_list ys"
  using assms by (induction ys) (auto intro: add_pos_nonneg sum_list_nonneg less_imp_le)

lemma entropy_positive_finite:
  assumes "pk \<noteq> []" and "\<forall>x\<in>set pk. 0 < x"
  shows "\<exists>r. entropy pk = Num r"
proof -
  have s: "0 < sum_list pk" using assms by (rule sum_list_pos_real)
  have "\<not> list_ex (\<lambda>x. x / sum_list pk < 0) pk"
    using assms(2) s by (auto simp: list_ex_iff not_less intro!: divide_nonneg_pos less_imp_le)
  then show ?thesis using s by (simp add: entropy_def Let_def)
qed

lemma smoothed_histogram_entropy_finite:
  assumes "mn \<le> mx"
  shows "\<exists>r. entropy (map (\<lambda>d. d + 0.000001) (histogram_density mn mx xs)) = Num r"
proof (rule entropy_positive_finite)
  show "map (\<lambda>d. d + 0.000001) (histogram_density mn mx xs) \<noteq> []"
    using length_histogram_density[of mn mx xs] by auto
  show "\<forall>x\<in>set (map (\<lambda>d. d + 0.000001) (histogram_density mn mx xs)). 0 < x"
  proof
    fix x assume "x \<in> set (map (\<lambda>d. d + 0.000001) (histogram_density mn mx xs))"
    then obtain d where d: "d \<in> set (histogram_density mn mx xs)" and x: "x = d + 0.000001"
      by auto
    have "0 \<le> d" using assms d by (rule histogram_density_nonneg)
    then show "0 < x" unfolding x by simp
  qed
qed

lemma extract_features_no_acc:
  assumes "np_min (map value_of hr) = Inr mn" and "np_max (map value_of hr) = Inr mx"
    and "acc = None \<or> acc = Some []"
  shows "extract_features hr acc =
       Inr ([Num (np_mean (map value_of hr)), Num (np_std (map value_of hr)),
             Num mn, Num mx, Num (energy hr),
             (if length hr > 2 then skew (map value_of hr) else Num 0),
             (if length hr > 3 then kurtosis (map value_of hr) else Num 0),
             entropy (map (\<lambda>d. d + 0.000001) (histogram_density mn mx (map value_of hr)))]
            @ replicate 24 (Num 0))"
  using assms(3) by (auto simp: extract_features_def features8_nonempty[OF assms(1,2)])

lemma extract_features_returns:
  assumes "hr \<noteq> []" and "acc = None \<or> acc = Some []"
  shows "\<exists>v. extract_features hr acc = Inr v"
proof -
  have ne: "map value_of hr \<noteq> []" using assms(1) by simp
  obtain mn where mn: "np_min (map value_of hr) = Inr mn"
    using np_min_nonempty[OF ne] by blast
  obtain mx where mx: "np_max (map value_of hr) = Inr mx"
    using np_max_nonempty[OF ne] by blast
  show ?thesis using extract_features_no_acc[OF mn mx assms(2)] by simp
qed

subsection \<open>Features without accelerometer data\<close>

text \<open>
  Claim C2. For a non-empty heart-rate array and an absent or empty accelerometer
  field, \<^verbatim>\<open>extract_features\<close> returns a vector of length 32 whose entries 8 to 31 are
  all \<open>0.0\<close> and whose first eight entries are, in this order, the mean, the standard
  deviation, the minimum, the maximum, the energy (computed in the arithmetic of the
  array, so with 64-bit wrap-around on an integer array), the skewness (or \<open>0\<close> for fewer
  than three samples), the kurtosis (or \<open>0\<close> for fewer than four) and the entropy of the
  smoothed histogram of the series.
\<close>

theorem no_accelerometer_features:
  assumes "hr \<noteq> []" and "acc = None \<or> acc = Some []"
  shows "\<exists>v mn mx. extract_features hr acc = Inr v \<and> length v = 32 \<and>
           (\<forall>i. 8 \<le> i \<and> i < 32 \<longrightarrow> v ! i = Num 0) \<and>
           np_min (map value_of hr) = Inr mn \<and> np_max (map value_of hr) = Inr mx \<and>
           take 8 v =
             [Num (np_mean (map value_of hr)), Num (np_std (map value_of hr)),
              Num mn, Num mx, Num (energy hr),
              (if length hr > 2 then skew (map value_of hr) else Num 0),
              (if length hr > 3 then kurtosis (map value_of hr) else Num 0),
              entropy (map (\<lambda>d. d + 0.000001) (histogram_density mn mx (map value_of hr)))]"
proof -
  have ne: "map value_of hr \<noteq> []" using assms(1) by simp
  obtain mn where mn: "np_min (map value_of hr) = Inr mn"
    using np_min_nonempty[OF ne] by blast
  obtain mx where mx: "np_max (map value_of hr) = Inr mx"
    using np_max_nonempty[OF ne] by blast
  let ?h = "[Num (np_mean (map value_of hr)), Num (np_std (map value_of hr)),
             Num mn, Num mx, Num (energy hr),
             (if length hr > 2 then skew (map value_of hr) else Num 0),
             (if length hr > 3 then kurtosis (map value_of hr) else Num 0),
             entropy (map (\<lambda>d. d + 0.000001) (histogram_density mn mx (map value_of hr)))]"
  let ?v = "?h @ replicate 24 (Num 0)"
  have e: "extract_features hr acc = Inr ?v"
    by (rule extract_features_no_acc[OF mn mx assms(2)])
  have l: "length ?v = 32" by simp
  have z: "\<forall>i. 8 \<le> i \<and> i < 32 \<longrightarrow> ?v ! i = Num 0"
  proof (intro allI impI)
    fix i :: nat assume i: "8 \<le> i \<and> i < 32"
    have h8: "length ?h = 8" by simp
    have "\<not> i < length ?h" and j: "i - length ?h < 24" using i unfolding h8 by arith+
    then have "?v ! i = replicate 24 (Num 0) ! (i - length ?h)"
      by (simp only: nth_append if_False)
    also have "\<dots> = Num 0" using j by (rule nth_replicate)
    finally show "?v ! i = Num 0" .
  qed
  have t: "take 8 ?v = ?h" by simp
  show ?thesis using e l z mn mx t by blast
qed

theorem no_accelerometer_features_witness:
  "(\<exists>v. extract_features [Int64 70, Int64 72] None = Inr v \<and> length v = 32 \<and>
        v ! 8 = Num 0 \<and> v ! 31 = Num 0 \<and>
        take 5 v = [Num 71, Num 1, Num 70, Num 72, Num 5042]) \<and>
   (\<exists>v. extract_features [Int64 4000000000, Int64 4000000000] (Some []) = Inr v \<and>
        length v = 32 \<and> v ! 8 = Num 0 \<and> v ! 4 = Num (- 2446744073709551616))"
proof -
  let ?a = "[Int64 70, Int64 72]"
  have ne: "?a \<noteq> []" by simp
  from no_accelerometer_features[OF ne, of None]
  obtain v mn mx where v: "extract_features ?a None = Inr v" "length v = 32"
    and z: "\<forall>i. 8 \<le> i \<and> i < 32 \<longrightarrow> v ! i = Num 0"
    and m: "np_min (map value_of ?a) = Inr mn" "np_max (map value_of ?a) = Inr mx"
    and t: "take 8 v =
             [Num (np_mean (map value_of ?a)), Num (np_std (map value_of ?a)),
              Num mn, Num mx, Num (energy ?a),
              (if length ?a > 2 then skew (map value_of ?a) else Num 0),
              (if length ?a > 3 then kurtosis (map value_of ?a) else Num 0),
              entropy (map (\<lambda>d. d + 0.000001) (histogram_density mn mx (map value_of ?a)))]"
    by blast
  have mn: "mn = 70" and mx: "mx = 72" using m by simp_all
  have "take 5 (take 8 v) = [Num 71, Num 1, Num 70, Num 72, Num 5042]"
    unfolding t by (simp add: np_mean_def np_std_def moment_def energy_def np_sum_def mn mx)
  then have "take 5 v = [Num 71, Num 1, Num 70, Num 72, Num 5042]" by simp
  moreover have "v ! 8 = Num 0" "v ! 31 = Num 0" using z by simp_all
  ultimately have first: "\<exists>v. extract_features ?a None = Inr v \<and> length v = 32 \<and>
        v ! 8 = Num 0 \<and> v ! 31 = Num 0 \<and>
        take 5 v = [Num 71, Num 1, Num 70, Num 72, Num 5042]"
    using v by blast
  let ?b = "[Int64 4000000000, Int64 4000000000]"
  have nb: "?b \<noteq> []" by simp
  from no_accelerometer_features[OF nb, of "Some []"]
  obtain w mn' mx' where w: "extract_features ?b (Some []) = Inr w" "length w = 32"
    and zw: "\<forall>i. 8 \<le> i \<and> i < 32 \<longrightarrow> w ! i = Num 0"
    and tw: "take 8 w =
             [Num (np_mean (map value_of ?b)), Num (np_std (map value_of ?b)),
              Num mn', Num mx', Num (energy ?b),
              (if length ?b > 2 then skew (map value_of ?b) else Num 0),
              (if length ?b > 3 then kurtosis (map value_of ?b) else Num 0),
              entropy (map (\<lambda>d. d + 0.000001) (histogram_density mn' mx' (map value_of ?b)))]"
    by blast
  have "take 8 w ! 4 = Num (energy ?b)" unfolding tw by simp
  moreover have "take 8 w ! 4 = w ! 4" by simp
  moreover have "energy ?b = - 2446744073709551616"
    by (simp add: energy_def np_sum_def)
  ultimately have "w ! 4 = Num (- 2446744073709551616)" by simp
  moreover have "w ! 8 = Num 0" using zw by simp
  ultimately have "\<exists>v. extract_features ?b (Some []) = Inr v \<and>
        length v = 32 \<and> v ! 8 = Num 0 \<and> v ! 4 = Num (- 2446744073709551616)"
    using w by blast
  with first show ?thesis by blast
qed

subsection \<open>Short and constant series\<close>

lemma extract_features_prefix:
  assumes "extract_features hr acc = Inr v"
  shows "\<exists>mn mx rest. np_min (map value_of hr) = Inr mn \<and> np_max (map value_of hr) = Inr mx \<and>
           v = [Num (np_mean (map value_of hr)), Num (np_std (map value_of hr)),
                Num mn, Num mx, Num (energy hr),
                (if length hr > 2 then skew (map value_of hr) else Num 0),
                (if length hr > 3 then kurtosis (map value_of hr) else Num 0),
                entropy (map (\<lambda>d. d + 0.000001) (histogram_density mn mx (map value_of hr)))]
               @ rest"
proof -
  from assms obtain h rest where h: "features8 hr = Inr h" and v: "v = h @ rest"
    unfolding extract_features_def by (auto simp: and_then_Inr_iff)
  from h obtain mn mx where mn: "np_min (map value_of hr) = Inr mn"
    and mx: "np_max (map value_of hr) = Inr mx"
    unfolding features8_def by (auto simp: and_then_Inr_iff Let_def)
  show ?thesis using h v mn mx features8_nonempty[OF mn mx] by auto
qed

text \<open>
  Claim C7. A non-empty heart-rate array without accelerometer data always yields a
  feature vector. In every vector that \<^verbatim>\<open>extract_features\<close> returns, the skewness slot is
  \<open>0\<close> when the series has fewer than three samples, the kurtosis slot is \<open>0\<close> when it has
  fewer than four, and the entropy slot is a finite number. For the series \<open>[5.0, 5.0]\<close>
  the vector is returned with standard deviation \<open>0\<close>, skewness \<open>0\<close>, kurtosis \<open>0\<close> and a
  finite entropy.
\<close>

theorem short_series_fallbacks:
  "(hr \<noteq> [] \<longrightarrow> (\<exists>v. extract_features hr None = Inr v)) \<and>
   (\<forall>acc v. extract_features hr acc = Inr v \<longrightarrow>
      (length hr < 3 \<longrightarrow> v ! 5 = Num 0) \<and>
      (length hr < 4 \<longrightarrow> v ! 6 = Num 0) \<and>
      (\<exists>r. v ! 7 = Num r)) \<and>
   (\<exists>v r. extract_features [Float64 5, Float64 5] None = Inr v \<and>
      v ! 1 = Num 0 \<and> v ! 5 = Num 0 \<and> v ! 6 = Num 0 \<and> v ! 7 = Num r)"
proof (intro conjI allI impI)
  assume "hr \<noteq> []"
  then show "\<exists>v. extract_features hr None = Inr v"
    using extract_features_returns[of hr None] by blast
next
  fix acc v assume e: "extract_features hr acc = Inr v" and "length hr < 3"
  from extract_features_prefix[OF e] \<open>length hr < 3\<close> show "v ! 5 = Num 0" by auto
next
  fix acc v assume e: "extract_features hr acc = Inr v" and "length hr < 4"
  from extract_features_prefix[OF e] \<open>length hr < 4\<close> show "v ! 6 = Num 0" by auto
next
  fix acc v assume e: "extract_features hr acc = Inr v"
  from extract_features_prefix[OF e] obtain mn mx rest where
    mn: "np_min (map value_of hr) = Inr mn" and mx: "np_max (map value_of hr) = Inr mx" and
    v: "v ! 7 = entropy (map (\<lambda>d. d + 0.000001) (histogram_density mn mx (map value_of hr)))"
    by auto
  have "mn \<le> mx" using mn mx by (rule np_min_le_np_max)
  then show "\<exists>r. v ! 7 = Num r"
    unfolding v by (rule smoothed_histogram_entropy_finite)
next
  let ?hr = "[Float64 5, Float64 5]"
  let ?x = "[5, 5] :: real list"
  have vals: "map value_of ?hr = ?x" by simp
  have mn: "np_min (map value_of ?hr) = Inr 5" and mx: "np_max (map value_of ?hr) = Inr 5"
    by simp_all
  let ?v = "[Num (np_mean (map value_of ?hr)), Num (np_std (map value_of ?hr)),
             Num 5, Num 5, Num (energy ?hr),
             (if length ?hr > 2 then skew (map value_of ?hr) else Num 0),
             (if length ?hr > 3 then kurtosis (map value_of ?hr) else Num 0),
             entropy (map (\<lambda>d. d + 0.000001) (histogram_density 5 5 (map value_of ?hr)))]
            @ replicate 24 (Num 0)"
  have e: "extract_features ?hr None = Inr ?v"
    by (rule extract_features_no_acc[OF mn mx]) simp
  obtain r where r: "entropy (map (\<lambda>d. d + 0.000001) (histogram_density 5 5 (map value_of ?hr))) = Num r"
    using smoothed_histogram_entropy_finite[of 5 5 "map value_of ?hr"] by auto
  have std: "np_std (map value_of ?hr) = 0"
    by (simp add: np_std_def moment_def np_mean_def)
  have "?v ! 1 = Num 0 \<and> ?v ! 5 = Num 0 \<and> ?v ! 6 = Num 0 \<and> ?v ! 7 = Num r"
    using r std by simp
  with e show "\<exists>v r. extract_features ?hr None = Inr v \<and>
      v ! 1 = Num 0 \<and> v ! 5 = Num 0 \<and> v ! 6 = Num 0 \<and> v ! 7 = Num r"
    by blast
qed

theorem short_series_fallbacks_witness:
  "(\<exists>v. extract_features [Int64 61, Int64 64, Int64 70] None = Inr v \<and> v ! 6 = Num 0 \<and>
        (\<exists>r. v ! 7 = Num r)) \<and>
   (\<exists>v. extract_features [Int64 61, Int64 64] None = Inr v \<and> v ! 5 = Num 0 \<and> v ! 6 = Num 0)"
proof -
  let ?a = "[Int64 61, Int64 64, Int64 70]" and ?b = "[Int64 61, Int64 64]"
  have a: "?a \<noteq> []" "length ?a < 4" and b: "?b \<noteq> []" "length ?b < 3" "length ?b < 4"
    by simp_all
  from short_series_fallbacks[of ?a] a(1) obtain v where v: "extract_features ?a None = Inr v"
    by blast
  from short_series_fallbacks[of ?a] v a(2) have "v ! 6 = Num 0 \<and> (\<exists>r. v ! 7 = Num r)"
    by blast
  with v have first: "\<exists>v. extract_features ?a None = Inr v \<and> v ! 6 = Num 0 \<and> (\<exists>r. v ! 7 = Num r)"
    by blast
  from short_series_fallbacks[of ?b] b(1) obtain w where w: "extract_features ?b None = Inr w"
    by blast
  from short_series_fallbacks[of ?b] w b(2,3) have "w ! 5 = Num 0 \<and> w ! 6 = Num 0"
    by blast
  with w have "\<exists>v. extract_features ?b None = Inr v \<and> v ! 5 = Num 0 \<and> v ! 6 = Num 0"
    by blast
  with first show ?thesis by blast
qed

subsection \<open>Flat and nested accelerometer input\<close>

lemma flat_form_scalars: "list_all is_scalar (flat_form ts)"
  by (induction ts) (auto simp: flat_form_def)

lemma flat_form_values:
  "map the_scalar (flat_form ts) = concat (map (\<lambda>(x, y, z). [x, y, z]) ts)"
  by (induction ts) (auto simp: flat_form_def)

lemma nested_form_rows: "map the_row (nested_form ts) = map (\<lambda>(x, y, z). [x, y, z]) ts"
  by (induction ts) (auto simp: nested_form_def)

lemma all_int_triples:
  "list_all is_int (concat (map (\<lambda>(x, y, z). [x, y, z]) ts)) = triples_all_int ts"
  by (induction ts) (auto simp: triples_all_int_def)

lemma chunk3_map_concat:
  "chunk3 (map f (concat (map (\<lambda>(x, y, z). [x, y, z]) ts)))
     = map (\<lambda>(x, y, z). map f [x, y, z]) ts"
  by (induction ts) auto

lemma map_map_triples:
  "map (map f) (map (\<lambda>(x, y, z). [x, y, z]) ts) = map (\<lambda>(x, y, z). map f [x, y, z]) ts"
  by (induction ts) auto

lemma length_concat_triples:
  "length (concat (map (\<lambda>(x, y, z). [x, y, z]) ts)) = 3 * length ts"
  by (induction ts) auto

lemma length_flat_form: "length (flat_form ts) = 3 * length ts"
  using flat_form_values[of ts] length_concat_triples[of ts] by (metis length_map)

lemma acc_matrix_flat_form: "acc_matrix (flat_form ts) = Inr (rows_of ts)"
proof -
  have "\<not> first_is_triple (flat_form ts)"
    by (cases ts) (auto simp: flat_form_def)
  moreover have "np_array (flat_form ts)
      = Inr (Arr1 (map (cast (triples_all_int ts)) (concat (map (\<lambda>(x, y, z). [x, y, z]) ts))))"
    by (simp add: np_array_def np_array1_def flat_form_scalars flat_form_values all_int_triples)
  ultimately show ?thesis
    by (simp add: acc_matrix_def reshape3_def length_concat_triples chunk3_map_concat rows_of_def)
qed

lemma acc_matrix_nested_form:
  assumes "ts \<noteq> []"
  shows "acc_matrix (nested_form ts) = Inr (rows_of ts)"
proof -
  obtain x y z ts' where ts: "ts = (x, y, z) # ts'"
    using assms by (cases ts) auto
  have f: "first_is_triple (nested_form ts)"
    by (simp add: ts nested_form_def)
  have ns: "\<not> list_all is_scalar (nested_form ts)"
    by (simp add: ts nested_form_def)
  have "list_all (\<lambda>e. \<not> is_scalar e \<and> length (the_row e) = 3) (nested_form ts)"
    by (induction ts) (auto simp: nested_form_def)
  moreover have "length (the_row (hd (nested_form ts))) = 3"
    by (simp add: ts nested_form_def)
  ultimately have "np_array (nested_form ts) = Inr (Arr2 (rows_of ts))"
    using ns
    by (simp add: np_array_def nested_form_rows all_int_triples map_map_triples rows_of_def
             del: map_map)
  then show ?thesis using f by (simp add: acc_matrix_def)
qed

lemma columns_of_triples:
  "column 0 (map (\<lambda>(x, y, z). map f [x, y, z]) ts) = map (\<lambda>t. f (fst t)) ts"
  "column 1 (map (\<lambda>(x, y, z). map f [x, y, z]) ts) = map (\<lambda>t. f (fst (snd t))) ts"
  "column 2 (map (\<lambda>(x, y, z). map f [x, y, z]) ts) = map (\<lambda>t. f (snd (snd t))) ts"
  by (induction ts) (auto simp: column_def)

lemma columns_of_rows:
  "column 0 (rows_of ts) = map (\<lambda>t. cast (triples_all_int ts) (fst t)) ts"
  "column 1 (rows_of ts) = map (\<lambda>t. cast (triples_all_int ts) (fst (snd t))) ts"
  "column 2 (rows_of ts) = map (\<lambda>t. cast (triples_all_int ts) (snd (snd t))) ts"
  unfolding rows_of_def by (rule columns_of_triples)+

lemma upt_3: "[0..<3] = [0, 1, 2]"
  by (simp add: upt_rec)

lemma extract_features_matrix:
  assumes "features8 hr = Inr h" and "length a > 0" and "acc_matrix a = Inr m"
    and "features8 (column 0 m) = Inr fx" and "features8 (column 1 m) = Inr fy"
    and "features8 (column 2 m) = Inr fz"
  shows "extract_features hr (Some a) = Inr (h @ fx @ fy @ fz)"
  using assms by (simp add: extract_features_def upt_3)

text \<open>
  Claim C6. For every sequence of accelerometer triples and every heart-rate array,
  \<^verbatim>\<open>extract_features\<close> gives the same result on the flat row-major encoding and on the
  nested encoding. When the array and the sequence are non-empty that result is the
  heart-rate block followed by the eight statistics of the x values, of the y values and
  of the z values (as floats unless every entry of the input is an integer). In
  particular \<open>[1, 2, 3, 4, 5, 6]\<close> and \<open>[[1, 2, 3], [4, 5, 6]]\<close> denote the same matrix.
\<close>

theorem flat_and_nested_agree:
  "extract_features hr (Some (flat_form ts)) = extract_features hr (Some (nested_form ts)) \<and>
   (hr \<noteq> [] \<and> ts \<noteq> [] \<longrightarrow>
      (\<exists>h fx fy fz. features8 hr = Inr h \<and>
          features8 (map (\<lambda>t. cast (triples_all_int ts) (fst t)) ts) = Inr fx \<and>
          features8 (map (\<lambda>t. cast (triples_all_int ts) (fst (snd t))) ts) = Inr fy \<and>
          features8 (map (\<lambda>t. cast (triples_all_int ts) (snd (snd t))) ts) = Inr fz \<and>
          extract_features hr (Some (flat_form ts)) = Inr (h @ fx @ fy @ fz) \<and>
          extract_features hr (Some (nested_form ts)) = Inr (h @ fx @ fy @ fz))) \<and>
   flat_form [(Int64 1, Int64 2, Int64 3), (Int64 4, Int64 5, Int64 6)]
     = map Scalar [Int64 1, Int64 2, Int64 3, Int64 4, Int64 5, Int64 6] \<and>
   nested_form [(Int64 1, Int64 2, Int64 3), (Int64 4, Int64 5, Int64 6)]
     = [Row [Int64 1, Int64 2, Int64 3], Row [Int64 4, Int64 5, Int64 6]] \<and>
   acc_matrix (map Scalar [Int64 1, Int64 2, Int64 3, Int64 4, Int64 5, Int64 6])
     = Inr [[Int64 1, Int64 2, Int64 3], [Int64 4, Int64 5, Int64 6]] \<and>
   acc_matrix [Row [Int64 1, Int64 2, Int64 3], Row [Int64 4, Int64 5, Int64 6]]
     = Inr [[Int64 1, Int64 2, Int64 3], [Int64 4, Int64 5, Int64 6]]"
proof -
  let ?ex = "[(Int64 1, Int64 2, Int64 3), (Int64 4, Int64 5, Int64 6)]"
  have a: "extract_features hr (Some (flat_form ts)) = extract_features hr (Some (nested_form ts))"
  proof (cases ts)
    case Nil
    then show ?thesis by (simp add: flat_form_def nested_form_def)
  next
    case (Cons t ts')
    then have ne: "ts \<noteq> []" by simp
    have "length (flat_form ts) > 0" using ne by (simp only: length_flat_form) simp
    moreover have "length (nested_form ts) > 0" using ne by (simp add: nested_form_def)
    ultimately have l: "length (flat_form ts) > 0 \<and> length (nested_form ts) > 0" ..
    show ?thesis
      using l by (simp add: extract_features_def acc_matrix_flat_form acc_matrix_nested_form[OF ne])
  qed
  have b: "\<exists>h fx fy fz. features8 hr = Inr h \<and>
          features8 (map (\<lambda>t. cast (triples_all_int ts) (fst t)) ts) = Inr fx \<and>
          features8 (map (\<lambda>t. cast (triples_all_int ts) (fst (snd t))) ts) = Inr fy \<and>
          features8 (map (\<lambda>t. cast (triples_all_int ts) (snd (snd t))) ts) = Inr fz \<and>
          extract_features hr (Some (flat_form ts)) = Inr (h @ fx @ fy @ fz) \<and>
          extract_features hr (Some (nested_form ts)) = Inr (h @ fx @ fy @ fz)"
    if ne: "hr \<noteq> [] \<and> ts \<noteq> []"
  proof -
    obtain h where h: "features8 hr = Inr h"
      using features8_returns[of hr] ne by blast
    obtain fx where fx: "features8 (map (\<lambda>t. cast (triples_all_int ts) (fst t)) ts) = Inr fx"
      using features8_returns[of "map (\<lambda>t. cast (triples_all_int ts) (fst t)) ts"] ne by auto
    obtain fy where fy: "features8 (map (\<lambda>t. cast (triples_all_int ts) (fst (snd t))) ts) = Inr fy"
      using features8_returns[of "map (\<lambda>t. cast (triples_all_int ts) (fst (snd t))) ts"] ne by auto
    obtain fz where fz: "features8 (map (\<lambda>t. cast (triples_all_int ts) (snd (snd t))) ts) = Inr fz"
      using features8_returns[of "map (\<lambda>t. cast (triples_all_int ts) (snd (snd t))) ts"] ne by auto
    have l: "length (flat_form ts) > 0" using ne by (simp only: length_flat_form) simp
    have "extract_features hr (Some (flat_form ts)) = Inr (h @ fx @ fy @ fz)"
      by (rule extract_features_matrix[OF h l acc_matrix_flat_form])
         (simp_all only: columns_of_rows fx fy fz)
    then show ?thesis using h fx fy fz a by simp
  qed
  have f: "flat_form ?ex = map Scalar [Int64 1, Int64 2, Int64 3, Int64 4, Int64 5, Int64 6]"
    by (simp add: flat_form_def)
  have n: "nested_form ?ex = [Row [Int64 1, Int64 2, Int64 3], Row [Int64 4, Int64 5, Int64 6]]"
    by (simp add: nested_form_def)
  have r: "rows_of ?ex = [[Int64 1, Int64 2, Int64 3], [Int64 4, Int64 5, Int64 6]]"
    by (simp add: rows_of_def triples_all_int_def cast_def)
  have m1: "acc_matrix (map Scalar [Int64 1, Int64 2, Int64 3, Int64 4, Int64 5, Int64 6])
     = Inr [[Int64 1, Int64 2, Int64 3], [Int64 4, Int64 5, Int64 6]]"
    using acc_matrix_flat_form[of ?ex] unfolding f r .
  have m2: "acc_matrix [Row [Int64 1, Int64 2, Int64 3], Row [Int64 4, Int64 5, Int64 6]]
     = Inr [[Int64 1, Int64 2, Int64 3], [Int64 4, Int64 5, Int64 6]]"
    using acc_matrix_nested_form[of ?ex] unfolding n r by simp
  show ?thesis using a b f n m1 m2 by blast
qed

theorem flat_and_nested_agree_witness:
  "\<exists>v. extract_features [Int64 70, Int64 72]
         (Some (map Scalar [Int64 1, Int64 2, Int64 3, Int64 4, Int64 5, Int64 6])) = Inr v \<and>
       extract_features [Int64 70, Int64 72]
         (Some [Row [Int64 1, Int64 2, Int64 3], Row [Int64 4, Int64 5, Int64 6]]) = Inr v \<and>
       length v = 32"
proof -
  let ?ts = "[(Int64 1, Int64 2, Int64 3), (Int64 4, Int64 5, Int64 6)]"
  let ?hr = "[Int64 70, Int64 72]"
  let ?b = "triples_all_int ?ts"
  have ne: "?hr \<noteq> [] \<and> ?ts \<noteq> []" by simp
  from flat_and_nested_agree[of ?hr ?ts] ne obtain h fx fy fz where
    f: "features8 ?hr = Inr h" "features8 (map (\<lambda>t. cast ?b (fst t)) ?ts) = Inr fx"
       "features8 (map (\<lambda>t. cast ?b (fst (snd t))) ?ts) = Inr fy"
       "features8 (map (\<lambda>t. cast ?b (snd (snd t))) ?ts) = Inr fz" and
    e: "extract_features ?hr (Some (flat_form ?ts)) = Inr (h @ fx @ fy @ fz)"
       "extract_features ?hr (Some (nested_form ?ts)) = Inr (h @ fx @ fy @ fz)"
    by blast
  have len: "length h = 8" "length fx = 8" "length fy = 8" "length fz = 8"
    using f features8_returns[of ?hr] features8_returns[of "map (\<lambda>t. cast ?b (fst t)) ?ts"]
      features8_returns[of "map (\<lambda>t. cast ?b (fst (snd t))) ?ts"]
      features8_returns[of "map (\<lambda>t. cast ?b (snd (snd t))) ?ts"]
    by auto
  have ff: "flat_form ?ts = map Scalar [Int64 1, Int64 2, Int64 3, Int64 4, Int64 5, Int64 6]"
    and nf: "nested_form ?ts = [Row [Int64 1, Int64 2, Int64 3], Row [Int64 4, Int64 5, Int64 6]]"
    using flat_and_nested_agree[of ?hr ?ts] by blast+
  show ?thesis using e len unfolding ff nf by auto
qed

subsection \<open>Flat accelerometer input of a length not divisible by three\<close>

lemma acc_matrix_flat_bad_length:
  assumes "length xs mod 3 \<noteq> 0"
  shows "acc_matrix (map Scalar xs) = Inl ValueError"
proof -
  have "\<not> first_is_triple (map Scalar xs)"
    by (cases xs) auto
  moreover have "np_array (map Scalar xs) = Inr (Arr1 (np_array1 xs))"
    by (simp add: np_array_def list_all_iff comp_def)
  moreover have "length (np_array1 xs) = length xs"
    by (simp add: np_array1_def)
  ultimately show ?thesis
    using assms by (simp add: acc_matrix_def reshape3_def)
qed

lemma extract_features_flat_bad_length:
  assumes "length xs mod 3 \<noteq> 0"
  shows "extract_features hr (Some (map Scalar xs)) = Inl ValueError"
proof (cases hr)
  case Nil
  then show ?thesis by (simp add: extract_features_def features8_empty)
next
  case (Cons x hr')
  then obtain h where h: "features8 hr = Inr h"
    using features8_returns[of hr] by auto
  have "xs \<noteq> []" using assms by auto
  then show ?thesis
    by (simp add: extract_features_def h acc_matrix_flat_bad_length[OF assms])
qed

lemma predict_mood_extraction_fails:
  assumes "\<not> falsy (heart_rate req)"
    and "extract_features (hr_sequence draws (the (heart_rate req))) (accelerometer req) = Inl e"
  shows "predict_mood argsort ms draws req = ServerError e"
  using assms by (simp add: predict_mood_def infer_def)

text \<open>
  Claim C4, as amended. For every flat accelerometer sequence whose length is not a
  multiple of three, the reshape raises \<^verbatim>\<open>ValueError\<close> and \<^verbatim>\<open>extract_features\<close> returns no
  vector, whatever the heart-rate array: nothing is truncated, padded or filled. A
  request that carries a heart rate and such a sequence is answered by the catch-all
  handler with status 500 and the exception, not with the status-400 input error.
\<close>

theorem malformed_flat_accelerometer:
  assumes "length xs mod 3 \<noteq> 0"
  shows "acc_matrix (map Scalar xs) = Inl ValueError \<and>
         extract_features hr (Some (map Scalar xs)) = Inl ValueError \<and>
         (\<not> falsy (heart_rate req) \<and> accelerometer req = Some (map Scalar xs) \<longrightarrow>
            predict_mood argsort ms draws req = ServerError ValueError \<and>
            status (predict_mood argsort ms draws req) = 500)"
proof -
  have "predict_mood argsort ms draws req = ServerError ValueError"
    if "\<not> falsy (heart_rate req) \<and> accelerometer req = Some (map Scalar xs)"
    using that extract_features_flat_bad_length[OF assms]
    by (intro predict_mood_extraction_fails) simp_all
  then show ?thesis
    using acc_matrix_flat_bad_length[OF assms] extract_features_flat_bad_length[OF assms]
    by simp
qed

theorem malformed_flat_accelerometer_witness:
  "acc_matrix (map Scalar (map Int64 [1, 2, 3, 4, 5, 6, 7])) = Inl ValueError \<and>
   extract_features (map Int64 [70, 72, 68, 75])
     (Some (map Scalar (map Int64 [1, 2, 3, 4, 5, 6, 7]))) = Inl ValueError \<and>
   predict_mood stable_argsort stub_models [] flat7_request = ServerError ValueError"
proof -
  have l: "length (map Int64 [1, 2, 3, 4, 5, 6, 7]) mod 3 \<noteq> 0" by simp
  have r: "\<not> falsy (heart_rate flat7_request) \<and>
       accelerometer flat7_request = Some (map Scalar (map Int64 [1, 2, 3, 4, 5, 6, 7]))"
    by (simp add: flat7_request_def)
  show ?thesis
    using malformed_flat_accelerometer[OF l, of "map Int64 [70, 72, 68, 75]" flat7_request
        stable_argsort stub_models "[]"] r
    by blast
qed

text \<open>
  Claim C4 as stated, that the shape error reaches the caller as an input error, fails
  for a request with four heart-rate samples and a flat accelerometer array of length 7:
  the answer is the status-500 response, not a status-400 one.
\<close>

theorem malformed_flat_accelerometer_not_input_error:
  "predict_mood stable_argsort stub_models [] flat7_request = ServerError ValueError \<and>
   status (predict_mood stable_argsort stub_models [] flat7_request) \<noteq> 400 \<and>
   predict_mood stable_argsort stub_models [] flat7_request
     \<noteq> BadRequest ''Heart rate data is required''"
proof -
  have l: "length (map Int64 [1, 2, 3, 4, 5, 6, 7]) mod 3 \<noteq> 0" by simp
  have e: "extract_features (hr_sequence [] (the (heart_rate flat7_request)))
             (accelerometer flat7_request) = Inl ValueError"
    unfolding flat7_request_def using extract_features_flat_bad_length[OF l] by simp
  have "predict_mood stable_argsort stub_models [] flat7_request = ServerError ValueError"
    by (rule predict_mood_extraction_fails[OF _ e]) (simp add: flat7_request_def)
  then show ?thesis by simp
qed

subsection \<open>Class-count mismatch between the classifiers\<close>

lemma predict_mood_at_ensemble:
  assumes "\<not> falsy (heart_rate req)"
    and "extract_features (hr_sequence draws (the (heart_rate req))) (accelerometer req) = Inr f"
    and "transform (scaler1 ms) f = Inr x1" and "transform (scaler2 ms) f = Inr x2"
    and "predict (model1 ms) x1 = Inr pr1" and "predict (model2 ms) x2 = Inr pr2"
    and "predict_proba (model1 ms) x1 = Inr p1" and "predict_proba (model2 ms) x2 = Inr p2"
  shows "predict_mood argsort ms draws req =
           (case ensemble argsort pr1 pr2 p1 p2 of Inl e \<Rightarrow> ServerError e | Inr d \<Rightarrow> Ok d)"
  using assms by (simp add: predict_mood_def infer_def)

lemma ensemble_length_mismatch:
  assumes "length p1 \<noteq> length p2" and "length p1 \<noteq> 1" and "length p2 \<noteq> 1"
  shows "ensemble argsort pr1 pr2 p1 p2 = Inl ValueError"
  using assms by (simp add: ensemble_def combined_proba_def)

lemma ensemble_index_out_of_range:
  assumes "length p1 = 4" and "length p2 = 4"
    and "pr1 < - 4 \<or> 4 \<le> pr1 \<or> pr2 < - 4 \<or> 4 \<le> pr2"
  shows "ensemble argsort pr1 pr2 p1 p2 = Inl IndexError"
proof -
  define c where "c = map2 (\<lambda>a b. 0.6 * a + 0.4 * b) p1 p2"
  have "length c = 4" using assms by (simp add: c_def)
  then obtain k where k: "np_argmax c = Inr k" by (cases c) auto
  note e = ensemble_after_argmax[of p1 p2 c k argsort pr1 pr2, OF assms(1,2) c_def k]
  have tail: "and_then (py_index MOOD_NAMES pr1) (\<lambda>m1.
              and_then (py_index MOOD_NAMES pr2) (\<lambda>m2. Inr (g m1 m2))) = Inl IndexError"
    for g :: "string \<Rightarrow> string \<Rightarrow> decision"
  proof (cases "pr1 < - 4 \<or> 4 \<le> pr1")
    case True
    then have "py_index MOOD_NAMES pr1 = Inl IndexError"
      by (intro py_index_out_of_range) (simp add: length_MOOD_NAMES)
    then show ?thesis by simp
  next
    case False
    then obtain m1 where m1: "py_index MOOD_NAMES pr1 = Inr m1"
      using py_index_in_range[of MOOD_NAMES pr1] by (auto simp: length_MOOD_NAMES)
    from False assms(3) have "pr2 < - 4 \<or> 4 \<le> pr2" by blast
    then have "py_index MOOD_NAMES pr2 = Inl IndexError"
      by (intro py_index_out_of_range) (simp add: length_MOOD_NAMES)
    then show ?thesis by (simp add: m1)
  qed
  show ?thesis
  proof (cases "py_index (argsort c) (- 2)")
    case (Inl err)
    then have "err = IndexError" by (rule py_index_error)
    with Inl show ?thesis unfolding e by simp
  next
    case (Inr s)
    show ?thesis
    proof (cases "py_index MOOD_NAMES (int s)")
      case (Inl err)
      then have "err = IndexError" by (rule py_index_error)
      with Inl \<open>py_index (argsort c) (- 2) = Inr s\<close> show ?thesis unfolding e by simp
    next
      case (Inr sec)
      with \<open>py_index (argsort c) (- 2) = Inr s\<close> show ?thesis
        unfolding e by (simp add: tail)
    qed
  qed
qed

lemma load_models_mismatched: "load_models mismatched_files = Inr mismatched_models"
  by (simp add: load_models_def mismatched_files_def mismatched_models_def)

lemma hr_only_features:
  "\<exists>f. extract_features (hr_sequence draws (the (heart_rate hr_only_request)))
         (accelerometer hr_only_request) = Inr f"
  using extract_features_returns[of "np_array1 (map Int64 [70, 72, 68, 75])" None]
  by (simp add: hr_only_request_def np_array1_def)

text \<open>
  Claim C5, as amended. Loading checks nothing about class counts: it succeeds with the
  four loaded objects whenever the four files load. A mismatch surfaces per request.
  When the inference reaches the ensemble step, probability rows of different lengths
  (neither of length one) make the request fail with status 500 and \<^verbatim>\<open>ValueError\<close>, and
  with two rows of four entries a predicted class index outside the index range
  \<open>-4 .. 3\<close> of \<open>MOOD_NAMES\<close> makes it fail with status 500 and \<^verbatim>\<open>IndexError\<close>, whatever
  the sort returns.
\<close>

theorem class_mismatch_at_request_time:
  "(joblib_load ''xgb_emotion_model.pkl'' = Inr m1 \<and> joblib_load ''xgb_scaler.pkl'' = Inr s1 \<and>
    joblib_load ''xgb_emotion_model2.pkl'' = Inr m2 \<and> joblib_load ''xgb_scaler2.pkl'' = Inr s2
    \<longrightarrow> load_models joblib_load = Inr \<lparr>model1 = m1, scaler1 = s1, model2 = m2, scaler2 = s2\<rparr>) \<and>
   (\<not> falsy (heart_rate req) \<and>
    extract_features (hr_sequence draws (the (heart_rate req))) (accelerometer req) = Inr f \<and>
    transform (scaler1 ms) f = Inr x1 \<and> transform (scaler2 ms) f = Inr x2 \<and>
    predict (model1 ms) x1 = Inr pr1 \<and> predict (model2 ms) x2 = Inr pr2 \<and>
    predict_proba (model1 ms) x1 = Inr p1 \<and> predict_proba (model2 ms) x2 = Inr p2
    \<longrightarrow>
      (length p1 \<noteq> length p2 \<and> length p1 \<noteq> 1 \<and> length p2 \<noteq> 1
         \<longrightarrow> predict_mood argsort ms draws req = ServerError ValueError) \<and>
      (length p1 = 4 \<and> length p2 = 4 \<and> (pr1 < - 4 \<or> 4 \<le> pr1 \<or> pr2 < - 4 \<or> 4 \<le> pr2)
         \<longrightarrow> predict_mood argsort ms draws req = ServerError IndexError))"
proof (intro conjI impI)
  assume "joblib_load ''xgb_emotion_model.pkl'' = Inr m1 \<and> joblib_load ''xgb_scaler.pkl'' = Inr s1 \<and>
    joblib_load ''xgb_emotion_model2.pkl'' = Inr m2 \<and> joblib_load ''xgb_scaler2.pkl'' = Inr s2"
  then show "load_models joblib_load = Inr \<lparr>model1 = m1, scaler1 = s1, model2 = m2, scaler2 = s2\<rparr>"
    by (simp add: load_models_def)
next
  assume h: "\<not> falsy (heart_rate req) \<and>
    extract_features (hr_sequence draws (the (heart_rate req))) (accelerometer req) = Inr f \<and>
    transform (scaler1 ms) f = Inr x1 \<and> transform (scaler2 ms) f = Inr x2 \<and>
    predict (model1 ms) x1 = Inr pr1 \<and> predict (model2 ms) x2 = Inr pr2 \<and>
    predict_proba (model1 ms) x1 = Inr p1 \<and> predict_proba (model2 ms) x2 = Inr p2"
    and m: "length p1 \<noteq> length p2 \<and> length p1 \<noteq> 1 \<and> length p2 \<noteq> 1"
  have "predict_mood argsort ms draws req =
           (case ensemble argsort pr1 pr2 p1 p2 of Inl e \<Rightarrow> ServerError e | Inr d \<Rightarrow> Ok d)"
    using h by (intro predict_mood_at_ensemble) blast+
  then show "predict_mood argsort ms draws req = ServerError ValueError"
    using m by (simp add: ensemble_length_mismatch)
next
  assume h: "\<not> falsy (heart_rate req) \<and>
    extract_features (hr_sequence draws (the (heart_rate req))) (accelerometer req) = Inr f \<and>
    transform (scaler1 ms) f = Inr x1 \<and> transform (scaler2 ms) f = Inr x2 \<and>
    predict (model1 ms) x1 = Inr pr1 \<and> predict (model2 ms) x2 = Inr pr2 \<and>
    predict_proba (model1 ms) x1 = Inr p1 \<and> predict_proba (model2 ms) x2 = Inr p2"
    and m: "length p1 = 4 \<and> length p2 = 4 \<and> (pr1 < - 4 \<or> 4 \<le> pr1 \<or> pr2 < - 4 \<or> 4 \<le> pr2)"
  have "predict_mood argsort ms draws req =
           (case ensemble argsort pr1 pr2 p1 p2 of Inl e \<Rightarrow> ServerError e | Inr d \<Rightarrow> Ok d)"
    using h by (intro predict_mood_at_ensemble) blast+
  moreover have "ensemble argsort pr1 pr2 p1 p2 = Inl IndexError"
    using m by (intro ensemble_index_out_of_range) blast+
  ultimately show "predict_mood argsort ms draws req = ServerError IndexError"
    by simp
qed

theorem class_mismatch_at_request_time_witness:
  "load_models mismatched_files = Inr mismatched_models \<and>
   predict_mood stable_argsort mismatched_models [] hr_only_request = ServerError ValueError \<and>
   predict_mood stable_argsort out_of_range_models [] hr_only_request = ServerError IndexError"
proof -
  obtain f where f: "extract_features (hr_sequence [] (the (heart_rate hr_only_request)))
         (accelerometer hr_only_request) = Inr f"
    using hr_only_features by blast
  have nf: "\<not> falsy (heart_rate hr_only_request)" by (simp add: hr_only_request_def)
  have files: "mismatched_files ''xgb_emotion_model.pkl'' = Inr stub_model1 \<and>
      mismatched_files ''xgb_scaler.pkl'' = Inr stub_scaler \<and>
      mismatched_files ''xgb_emotion_model2.pkl'' = Inr five_class_model \<and>
      mismatched_files ''xgb_scaler2.pkl'' = Inr stub_scaler"
    by (simp add: mismatched_files_def)
  have a: "load_models mismatched_files = Inr mismatched_models"
    using class_mismatch_at_request_time[of mismatched_files stub_model1 stub_scaler
        five_class_model stub_scaler] files
    unfolding mismatched_models_def by blast
  have b: "predict_mood stable_argsort mismatched_models [] hr_only_request = ServerError ValueError"
    using class_mismatch_at_request_time[of _ _ _ _ _ hr_only_request "[]" f mismatched_models
        f f 0 4 "[0.7, 0.1, 0.1, 0.1]" "[0.1, 0.1, 0.1, 0.1, 0.6]" stable_argsort] nf f
    by (simp add: mismatched_models_def stub_scaler_def stub_model1_def five_class_model_def)
  have c: "predict_mood stable_argsort out_of_range_models [] hr_only_request = ServerError IndexError"
    using class_mismatch_at_request_time[of _ _ _ _ _ hr_only_request "[]" f out_of_range_models
        f f 0 4 "[0.7, 0.1, 0.1, 0.1]" "[0.5, 0.2, 0.2, 0.1]" stable_argsort] nf f
    by (simp add: out_of_range_models_def stub_scaler_def stub_model1_def out_of_range_model_def)
  show ?thesis using a b c by blast
qed

text \<open>
  Claim C5 as stated, that a class-count mismatch is fatal at load time and never a
  per-request error, fails for a model directory whose second classifier has five
  classes: loading succeeds, and a request with four heart-rate samples is answered
  with status 500.
\<close>

theorem class_mismatch_not_caught_at_load:
  "load_models mismatched_files = Inr mismatched_models \<and>
   predict_mood stable_argsort mismatched_models [] hr_only_request = ServerError ValueError \<and>
   status (predict_mood stable_argsort mismatched_models [] hr_only_request) = 500"
proof -
  obtain f where f: "extract_features (hr_sequence [] (the (heart_rate hr_only_request)))
         (accelerometer hr_only_request) = Inr f"
    using hr_only_features by blast
  have nf: "\<not> falsy (heart_rate hr_only_request)" by (simp add: hr_only_request_def)
  have "predict_mood stable_argsort mismatched_models [] hr_only_request =
          (case ensemble stable_argsort 0 4 [0.7, 0.1, 0.1, 0.1] [0.1, 0.1, 0.1, 0.1, 0.6] of
             Inl e \<Rightarrow> ServerError e | Inr d \<Rightarrow> Ok d)"
    by (rule predict_mood_at_ensemble[OF nf f, of _ f f])
       (simp_all add: mismatched_models_def stub_scaler_def stub_model1_def five_class_model_def)
  then have "predict_mood stable_argsort mismatched_models [] hr_only_request = ServerError ValueError"
    by (simp add: ensemble_length_mismatch)
  then show ?thesis using load_models_mismatched by simp
qed

end
